theory Spec2Isabelle
  imports Main "HOL-Library.Word"
begin

unbundle bit_operations_syntax

section \<open>Frames, errors and the struct codec\<close>

text \<open>
  A CAN payload is a Python \<^verbatim>\<open>bytes\<close> value: a list of bytes of any length from 0 to 8
  (\<^verbatim>\<open>on_response\<close> stores whatever the bus delivers). Command bytes are 8-bit words, so
  that the masks and shifts of \<^verbatim>\<open>sdo.py\<close> are the bitwise operations of the word library.
\<close>

type_synonym byte = "8 word"
type_synonym frame = "byte list"

text \<open>
  Every exception the modelled code can raise is a value. \<^verbatim>\<open>StructError\<close> is
  \<^verbatim>\<open>struct.error\<close> (a buffer too short, a value out of range), \<^verbatim>\<open>TypeError\<close> and
  \<^verbatim>\<open>ValueError\<close> are the built-in exceptions of those names.
\<close>

datatype sdo_error =
    SdoCommunicationError string
  | SdoAbortedError nat
  | CanError
  | StructError
  | RuntimeError string
  | AssertionError string
  | TypeError
  | ValueError

text \<open>The command vocabulary of \<^verbatim>\<open>sdo.py\<close>, lines 25 to 52.\<close>

abbreviation (input) REQUEST_SEGMENT_DOWNLOAD :: byte where "REQUEST_SEGMENT_DOWNLOAD \<equiv> 0x00"
abbreviation (input) REQUEST_DOWNLOAD :: byte where "REQUEST_DOWNLOAD \<equiv> 0x20"
abbreviation (input) REQUEST_UPLOAD :: byte where "REQUEST_UPLOAD \<equiv> 0x40"
abbreviation (input) REQUEST_SEGMENT_UPLOAD :: byte where "REQUEST_SEGMENT_UPLOAD \<equiv> 0x60"
abbreviation (input) REQUEST_ABORTED :: byte where "REQUEST_ABORTED \<equiv> 0x80"
abbreviation (input) REQUEST_BLOCK_UPLOAD :: byte where "REQUEST_BLOCK_UPLOAD \<equiv> 0xA0"
abbreviation (input) REQUEST_BLOCK_DOWNLOAD :: byte where "REQUEST_BLOCK_DOWNLOAD \<equiv> 0xC0"

abbreviation (input) RESPONSE_SEGMENT_UPLOAD :: byte where "RESPONSE_SEGMENT_UPLOAD \<equiv> 0x00"
abbreviation (input) RESPONSE_SEGMENT_DOWNLOAD :: byte where "RESPONSE_SEGMENT_DOWNLOAD \<equiv> 0x20"
abbreviation (input) RESPONSE_UPLOAD :: byte where "RESPONSE_UPLOAD \<equiv> 0x40"
abbreviation (input) RESPONSE_DOWNLOAD :: byte where "RESPONSE_DOWNLOAD \<equiv> 0x60"
abbreviation (input) RESPONSE_ABORTED :: byte where "RESPONSE_ABORTED \<equiv> 0x80"
abbreviation (input) RESPONSE_BLOCK_DOWNLOAD :: byte where "RESPONSE_BLOCK_DOWNLOAD \<equiv> 0xA0"

abbreviation (input) INITIATE_BLOCK_TRANSFER :: byte where "INITIATE_BLOCK_TRANSFER \<equiv> 0"
abbreviation (input) END_BLOCK_TRANSFER :: byte where "END_BLOCK_TRANSFER \<equiv> 1"
abbreviation (input) BLOCK_TRANSFER_RESPONSE :: byte where "BLOCK_TRANSFER_RESPONSE \<equiv> 2"

abbreviation (input) EXPEDITED :: byte where "EXPEDITED \<equiv> 0x2"
abbreviation (input) SIZE_SPECIFIED :: byte where "SIZE_SPECIFIED \<equiv> 0x1"
abbreviation (input) BLOCK_SIZE_SPECIFIED :: byte where "BLOCK_SIZE_SPECIFIED \<equiv> 0x2"
abbreviation (input) CRC_SUPPORTED :: byte where "CRC_SUPPORTED \<equiv> 0x4"
abbreviation (input) NO_MORE_DATA :: byte where "NO_MORE_DATA \<equiv> 0x1"
abbreviation (input) NO_MORE_BLOCKS :: byte where "NO_MORE_BLOCKS \<equiv> 0x80"
abbreviation (input) TOGGLE_BIT :: byte where "TOGGLE_BIT \<equiv> 0x10"

subsection \<open>String formatting of the error messages\<close>

definition hex_digit :: "nat \<Rightarrow> char" where
  "hex_digit d = ''0123456789ABCDEF'' ! d"

function fmt_base :: "nat \<Rightarrow> nat \<Rightarrow> string" where
  "fmt_base b n =
     (if b < 2 \<or> n < b then [hex_digit n]
      else fmt_base b (n div b) @ [hex_digit (n mod b)])"
  by pat_completeness auto
termination
  by (relation "measure snd") auto

declare fmt_base.simps [simp del]

text \<open>\<^verbatim>\<open>"%d" % n\<close>, \<^verbatim>\<open>"{:X}".format(n)\<close> and \<^verbatim>\<open>"%02X" % n\<close> for a non-negative \<open>n\<close>.\<close>

definition fmt_d :: "nat \<Rightarrow> string" where
  "fmt_d n = fmt_base 10 n"

definition fmt_X :: "nat \<Rightarrow> string" where
  "fmt_X n = fmt_base 16 n"

definition fmt_02X :: "nat \<Rightarrow> string" where
  "fmt_02X n = (if n < 16 then CHR ''0'' # fmt_X n else fmt_X n)"

definition unexpected_response :: "byte \<Rightarrow> sdo_error" where
  "unexpected_response res_command =
     SdoCommunicationError (''Unexpected response 0x'' @ fmt_02X (unat res_command))"

definition wrong_object :: "16 word \<Rightarrow> byte \<Rightarrow> sdo_error" where
  "wrong_object res_index res_subindex =
     SdoCommunicationError
       (''Node returned a value for 0x'' @ fmt_X (unat res_index) @ '':''
        @ fmt_d (unat res_subindex)
        @ '' instead, maybe there is another SDO client communicating on the same SDO channel?'')"

subsection \<open>The struct codec\<close>

text \<open>
  Little-endian integers. \<open>pack_L\<close> is the four bytes that \<^verbatim>\<open>struct.pack_into("<L", ...)\<close>
  writes for a value below \<open>2 ^ 32\<close> (the callers check the range, as \<^verbatim>\<open>struct\<close> does);
  \<open>le_nat\<close> reads a little-endian byte string back.
\<close>

definition pack_L :: "nat \<Rightarrow> frame" where
  "pack_L n = [of_nat n, of_nat (n div 256), of_nat (n div 65536), of_nat (n div 16777216)]"

definition pack_H :: "16 word \<Rightarrow> frame" where
  "pack_H w = [ucast w, ucast (drop_bit 8 w)]"

definition unpack_H :: "byte \<Rightarrow> byte \<Rightarrow> 16 word" where
  "unpack_H lo hi = ucast lo OR push_bit 8 (ucast hi)"

fun le_nat :: "frame \<Rightarrow> nat" where
  "le_nat [] = 0"
| "le_nat (b # bs) = unat b + 256 * le_nat bs"

text \<open>\<^verbatim>\<open>struct.unpack_from("B", buf)\<close>: the first byte, \<^verbatim>\<open>struct.error\<close> on an empty buffer.\<close>

definition unpack_from_B :: "frame \<Rightarrow> sdo_error + byte" where
  "unpack_from_B buf = (case buf of [] \<Rightarrow> Inl StructError | b # _ \<Rightarrow> Inr b)"

text \<open>\<^verbatim>\<open>struct.unpack_from("<L", buf, offset)\<close>: needs four bytes from \<open>offset\<close> on.\<close>

definition unpack_from_L :: "frame \<Rightarrow> nat \<Rightarrow> sdo_error + nat" where
  "unpack_from_L buf offset =
     (if length buf < offset + 4 then Inl StructError
      else Inr (le_nat (take 4 (drop offset buf))))"

text \<open>\<^verbatim>\<open>struct.unpack("<L", buf)\<close>: the buffer must hold exactly four bytes.\<close>

definition unpack_L :: "frame \<Rightarrow> sdo_error + nat" where
  "unpack_L buf = (if length buf \<noteq> 4 then Inl StructError else Inr (le_nat buf))"

text \<open>\<^verbatim>\<open>SDO_STRUCT = struct.Struct("<BHB")\<close>: command, index, subindex.\<close>

definition SDO_STRUCT_pack :: "byte \<Rightarrow> 16 word \<Rightarrow> byte \<Rightarrow> frame" where
  "SDO_STRUCT_pack command index subindex = command # pack_H index @ [subindex]"

definition SDO_STRUCT_unpack_from :: "frame \<Rightarrow> sdo_error + (byte \<times> 16 word \<times> byte)" where
  "SDO_STRUCT_unpack_from buf =
     (case buf of
        c # lo # hi # s # _ \<Rightarrow> Inr (c, unpack_H lo hi, s)
      | _ \<Rightarrow> Inl StructError)"

section \<open>The SDO client, its mailbox and the bus\<close>

text \<open>
  The fields up to \<open>responses\<close> are those of \<^verbatim>\<open>SdoClient\<close> (the two class attributes
  included; times are in milliseconds, so \<^verbatim>\<open>RESPONSE_TIMEOUT = 0.3\<close> is 300). The last four
  fields are the world the client talks to:
  \<^item> \<open>clock\<close> is the current time, advanced by \<^verbatim>\<open>time.sleep\<close> and by blocking waits;
  \<^item> \<open>bus_rx\<close> holds the frames the server will still deliver, each with its arrival time,
    in arrival order; the receive thread hands a frame to \<^verbatim>\<open>on_response\<close> once its time
    has come;
  \<^item> \<open>bus_busy\<close> tells, for the coming calls of \<^verbatim>\<open>network.send_message\<close>, whether the call
    raises \<^verbatim>\<open>CanError\<close>; once the list is used up every call succeeds;
  \<^item> \<open>sent\<close> logs the frames that \<^verbatim>\<open>network.send_message\<close> has put on the bus.
\<close>

record sdo_client =
  rx_cobid :: nat
  tx_cobid :: nat
  RESPONSE_TIMEOUT :: nat
  MAX_RETRIES :: int
  pause_before_send :: nat
  responses :: "frame list"
  clock :: nat
  bus_rx :: "(nat \<times> frame) list"
  bus_busy :: "bool list"
  sent :: "frame list"

type_synonym 'a result = "sdo_error + 'a"

definition on_response :: "frame \<Rightarrow> sdo_client \<Rightarrow> sdo_client" where
  "on_response data c = c\<lparr>responses := responses c @ [data]\<rparr>"

text \<open>The receive thread: every frame whose arrival time has passed goes to the mailbox.\<close>

definition deliver :: "sdo_client \<Rightarrow> sdo_client" where
  "deliver c =
     fold on_response (map snd (takeWhile (\<lambda>(t, f). t \<le> clock c) (bus_rx c)))
       (c\<lparr>bus_rx := dropWhile (\<lambda>(t, f). t \<le> clock c) (bus_rx c)\<rparr>)"

definition sleep :: "nat \<Rightarrow> sdo_client \<Rightarrow> sdo_client" where
  "sleep d c = c\<lparr>clock := clock c + d\<rparr>"

text \<open>
  \<^verbatim>\<open>self.responses.get(block=True, timeout=self.RESPONSE_TIMEOUT)\<close>: the oldest frame of
  the mailbox at once; on an empty mailbox the next frame of the bus if it arrives before
  the deadline; otherwise \<^verbatim>\<open>queue.Empty\<close> (the value \<open>None\<close>) after the whole timeout.
\<close>

definition responses_get :: "sdo_client \<Rightarrow> frame option \<times> sdo_client" where
  "responses_get c =
     (let c1 = deliver c in
      case responses c1 of
        f # fs \<Rightarrow> (Some f, c1\<lparr>responses := fs\<rparr>)
      | [] \<Rightarrow>
          (case bus_rx c1 of
             (t, f) # rest \<Rightarrow>
               if t < clock c1 + RESPONSE_TIMEOUT c1
               then (Some f, c1\<lparr>clock := t, bus_rx := rest\<rparr>)
               else (None, sleep (RESPONSE_TIMEOUT c1) c1)
           | [] \<Rightarrow> (None, sleep (RESPONSE_TIMEOUT c1) c1)))"

text \<open>\<^verbatim>\<open>self.network.send_message(self.rx_cobid, request)\<close>.\<close>

definition send_message :: "frame \<Rightarrow> sdo_client \<Rightarrow> unit result \<times> sdo_client" where
  "send_message data c =
     (case bus_busy c of
        [] \<Rightarrow> (Inr (), c\<lparr>sent := sent c @ [data]\<rparr>)
      | busy # rest \<Rightarrow>
          if busy then (Inl CanError, c\<lparr>bus_busy := rest\<rparr>)
          else (Inr (), c\<lparr>bus_busy := rest, sent := sent c @ [data]\<rparr>))"

text \<open>
  \<^verbatim>\<open>SdoClient.send_request\<close>. The loop goes round again only after a \<^verbatim>\<open>CanError\<close>, and
  each of those uses up one entry of \<open>bus_busy\<close>.
\<close>

function send_loop :: "int \<Rightarrow> frame \<Rightarrow> sdo_client \<Rightarrow> unit result \<times> sdo_client" where
  "send_loop retries_left request c =
     (let c1 = (if pause_before_send c \<noteq> 0 then sleep (pause_before_send c) c else c) in
      case send_message request c1 of
        (Inr u, c2) \<Rightarrow> (Inr (), c2)
      | (Inl CanError, c2) \<Rightarrow>
          if retries_left - 1 = 0 then (Inl CanError, c2)
          else send_loop (retries_left - 1) request (sleep 100 c2)
      | (Inl e, c2) \<Rightarrow> (Inl e, c2))"
  by pat_completeness auto
termination
  by (relation "measure (\<lambda>(r, q, c). length (bus_busy c))")
     (auto simp: send_message_def sleep_def split: list.splits if_splits)

declare send_loop.simps [simp del]

definition send_request :: "frame \<Rightarrow> sdo_client \<Rightarrow> unit result \<times> sdo_client" where
  "send_request request c = send_loop (MAX_RETRIES c) request c"

text \<open>\<^verbatim>\<open>SdoClient.read_response\<close>.\<close>

definition read_response :: "sdo_client \<Rightarrow> frame result \<times> sdo_client" where
  "read_response c =
     (case responses_get c of
        (None, c1) \<Rightarrow> (Inl (SdoCommunicationError ''No SDO response received''), c1)
      | (Some response, c1) \<Rightarrow>
          (case unpack_from_B response of
             Inl e \<Rightarrow> (Inl e, c1)
           | Inr res_command \<Rightarrow>
               if res_command = RESPONSE_ABORTED then
                 (case unpack_from_L response 4 of
                    Inl e \<Rightarrow> (Inl e, c1)
                  | Inr abort_code \<Rightarrow> (Inl (SdoAbortedError abort_code), c1))
               else (Inr response, c1)))"

text \<open>
  \<^verbatim>\<open>SdoClient.request_response\<close>. Only \<^verbatim>\<open>SdoCommunicationError\<close> is caught; with
  \<^verbatim>\<open>MAX_RETRIES\<close> below 1 and a silent bus the loop never ends, which is the value \<open>None\<close>.
\<close>

partial_function (option) request_loop ::
  "int \<Rightarrow> frame \<Rightarrow> sdo_client \<Rightarrow> (frame result \<times> sdo_client) option" where
  "request_loop retries_left sdo_request c =
     (case send_request sdo_request c of
        (Inl e, c1) \<Rightarrow> Some (Inl e, c1)
      | (Inr u, c1) \<Rightarrow>
          (case read_response c1 of
             (Inl (SdoCommunicationError m), c2) \<Rightarrow>
               if retries_left - 1 = 0 then Some (Inl (SdoCommunicationError m), c2)
               else request_loop (retries_left - 1) sdo_request c2
           | (r, c2) \<Rightarrow> Some (r, c2)))"

declare request_loop.simps [code]

definition request_response ::
  "frame \<Rightarrow> sdo_client \<Rightarrow> (frame result \<times> sdo_client) option" where
  "request_response sdo_request c =
     (let c0 = deliver c;
          c1 = (if responses c0 \<noteq> [] then c0\<lparr>responses := []\<rparr> else c0)
      in request_loop (MAX_RETRIES c1) sdo_request c1)"

text \<open>\<^verbatim>\<open>SdoClient.abort\<close>; \<^verbatim>\<open>struct.pack_into("<L", ...)\<close> refuses a code of \<open>2 ^ 32\<close> or more.\<close>

definition abort :: "nat \<Rightarrow> sdo_client \<Rightarrow> unit result \<times> sdo_client" where
  "abort abort_code c =
     (if abort_code \<ge> 2 ^ 32 then (Inl StructError, c)
      else send_request ([REQUEST_ABORTED, 0, 0, 0] @ pack_L abort_code) c)"

section \<open>Upload: \<^verbatim>\<open>ReadableStream\<close>\<close>

text \<open>
  The fields \<^verbatim>\<open>_done\<close>, \<^verbatim>\<open>_toggle\<close>, \<^verbatim>\<open>pos\<close>, \<^verbatim>\<open>size\<close> and \<^verbatim>\<open>exp_data\<close> of a
  \<^verbatim>\<open>ReadableStream\<close>. The client the stream refers to is passed along with it.
\<close>

record ReadableStream =
  rs_done :: bool
  rs_toggle :: byte
  rs_pos :: nat
  rs_size :: "nat option"
  rs_exp_data :: "frame option"

text \<open>\<^verbatim>\<open>ReadableStream.__init__\<close>: the initiate exchange of an upload.\<close>

definition ReadableStream_init ::
  "16 word \<Rightarrow> byte \<Rightarrow> sdo_client \<Rightarrow> (ReadableStream result \<times> sdo_client) option" where
  "ReadableStream_init index subindex c =
     (case request_response (SDO_STRUCT_pack REQUEST_UPLOAD index subindex @ [0, 0, 0, 0]) c of
        None \<Rightarrow> None
      | Some (Inl e, c1) \<Rightarrow> Some (Inl e, c1)
      | Some (Inr response, c1) \<Rightarrow>
          (case SDO_STRUCT_unpack_from response of
             Inl e \<Rightarrow> Some (Inl e, c1)
           | Inr (res_command, res_index, res_subindex) \<Rightarrow>
               let res_data = take 4 (drop 4 response);
                   fp = \<lparr>rs_done = False, rs_toggle = 0, rs_pos = 0, rs_size = None,
                         rs_exp_data = None\<rparr>
               in
               if res_command AND 0xE0 \<noteq> RESPONSE_UPLOAD
               then Some (Inl (unexpected_response res_command), c1)
               else if res_index \<noteq> index \<or> res_subindex \<noteq> subindex
               then Some (Inl (wrong_object res_index res_subindex), c1)
               else if res_command AND EXPEDITED \<noteq> 0 then
                 (if res_command AND SIZE_SPECIFIED \<noteq> 0 then
                    let sz = 4 - unat (drop_bit 2 res_command AND 0x3);
                        exp_data = take sz res_data
                    in Some (Inr (fp\<lparr>rs_size := Some sz, rs_exp_data := Some exp_data,
                                      rs_pos := length exp_data\<rparr>), c1)
                  else Some (Inr (fp\<lparr>rs_exp_data := Some res_data,
                                       rs_pos := length res_data\<rparr>), c1))
               else if res_command AND SIZE_SPECIFIED \<noteq> 0 then
                 (case unpack_L res_data of
                    Inl e \<Rightarrow> Some (Inl e, c1)
                  | Inr sz \<Rightarrow> Some (Inr (fp\<lparr>rs_size := Some sz\<rparr>), c1))
               else Some (Inr fp, c1)))"

text \<open>Lines 418 to 433 of \<^verbatim>\<open>ReadableStream.read\<close>: one segment exchange.\<close>

definition read_segment ::
  "ReadableStream \<Rightarrow> sdo_client \<Rightarrow> ((frame result \<times> ReadableStream) \<times> sdo_client) option" where
  "read_segment fp c =
     (case request_response ((REQUEST_SEGMENT_UPLOAD OR rs_toggle fp) # replicate 7 0) c of
        None \<Rightarrow> None
      | Some (Inl e, c1) \<Rightarrow> Some ((Inl e, fp), c1)
      | Some (Inr response, c1) \<Rightarrow>
          (case unpack_from_B response of
             Inl e \<Rightarrow> Some ((Inl e, fp), c1)
           | Inr res_command \<Rightarrow>
               if res_command AND 0xE0 \<noteq> RESPONSE_SEGMENT_UPLOAD
               then Some ((Inl (unexpected_response res_command), fp), c1)
               else if res_command AND TOGGLE_BIT \<noteq> rs_toggle fp
               then Some ((Inl (SdoCommunicationError ''Toggle bit mismatch''), fp), c1)
               else
                 let len = 7 - unat (drop_bit 1 res_command AND 0x7) in
                 Some ((Inr (take len (drop 1 response)),
                        fp\<lparr>rs_done := (if res_command AND NO_MORE_DATA \<noteq> 0 then True
                                       else rs_done fp),
                           rs_toggle := rs_toggle fp XOR TOGGLE_BIT,
                           rs_pos := rs_pos fp + len\<rparr>), c1)))"

text \<open>
  \<^verbatim>\<open>ReadableStream.read(size)\<close> for a \<open>size\<close> that is neither \<^verbatim>\<open>None\<close> nor negative: what
  \<^verbatim>\<open>readinto\<close> and \<^verbatim>\<open>readall\<close> call.
\<close>

definition read_sized ::
  "ReadableStream \<Rightarrow> sdo_client \<Rightarrow> ((frame result \<times> ReadableStream) \<times> sdo_client) option" where
  "read_sized fp c =
     (if rs_done fp then Some ((Inr [], fp), c)
      else case rs_exp_data fp of
        Some exp_data \<Rightarrow> Some ((Inr exp_data, fp\<lparr>rs_done := True\<rparr>), c)
      | None \<Rightarrow> read_segment fp c)"

text \<open>
  \<^verbatim>\<open>io.RawIOBase.readall\<close>, which \<^verbatim>\<open>ReadableStream\<close> inherits: it calls
  \<^verbatim>\<open>self.read(DEFAULT_BUFFER_SIZE)\<close> until a call returns no bytes, and joins the chunks.
\<close>

partial_function (option) readall_loop ::
  "frame \<Rightarrow> ReadableStream \<Rightarrow> sdo_client \<Rightarrow>
   ((frame result \<times> ReadableStream) \<times> sdo_client) option" where
  "readall_loop chunks fp c =
     (case read_sized fp c of
        None \<Rightarrow> None
      | Some ((Inl e, fp1), c1) \<Rightarrow> Some ((Inl e, fp1), c1)
      | Some ((Inr data, fp1), c1) \<Rightarrow>
          if data = [] then Some ((Inr chunks, fp1), c1)
          else readall_loop (chunks @ data) fp1 c1)"

declare readall_loop.simps [code]

definition readall ::
  "ReadableStream \<Rightarrow> sdo_client \<Rightarrow> ((frame result \<times> ReadableStream) \<times> sdo_client) option" where
  "readall fp c = readall_loop [] fp c"

text \<open>\<^verbatim>\<open>ReadableStream.read(size)\<close>, with \<open>sz\<close> for \<^verbatim>\<open>size\<close>; the default is \<open>Some (-1)\<close>.\<close>

definition ReadableStream_read ::
  "ReadableStream \<Rightarrow> int option \<Rightarrow> sdo_client \<Rightarrow>
   ((frame result \<times> ReadableStream) \<times> sdo_client) option" where
  "ReadableStream_read fp sz c =
     (if rs_done fp then Some ((Inr [], fp), c)
      else case rs_exp_data fp of
        Some exp_data \<Rightarrow> Some ((Inr exp_data, fp\<lparr>rs_done := True\<rparr>), c)
      | None \<Rightarrow>
          if sz = None \<or> the sz < 0 then readall fp c
          else read_segment fp c)"

text \<open>
  \<^verbatim>\<open>SdoClient.upload\<close>: \<^verbatim>\<open>with ReadableStream(self, index, subindex) as fp: return fp.read()\<close>.
  Leaving the \<^verbatim>\<open>with\<close> block closes the stream, which sends nothing.
\<close>

definition upload ::
  "16 word \<Rightarrow> byte \<Rightarrow> sdo_client \<Rightarrow> (frame result \<times> sdo_client) option" where
  "upload index subindex c =
     (case ReadableStream_init index subindex c of
        None \<Rightarrow> None
      | Some (Inl e, c1) \<Rightarrow> Some (Inl e, c1)
      | Some (Inr fp, c1) \<Rightarrow>
          (case ReadableStream_read fp (Some (- 1)) c1 of
             None \<Rightarrow> None
           | Some ((r, fp1), c2) \<Rightarrow> Some (r, c2)))"

section \<open>Download: \<^verbatim>\<open>WritableStream\<close>\<close>

text \<open>
  The fields \<^verbatim>\<open>size\<close>, \<^verbatim>\<open>pos\<close>, \<^verbatim>\<open>_toggle\<close>, \<^verbatim>\<open>_exp_header\<close> and \<^verbatim>\<open>_done\<close> of a
  \<^verbatim>\<open>WritableStream\<close>.
\<close>

record WritableStream =
  ws_size :: "nat option"
  ws_pos :: nat
  ws_toggle :: byte
  ws_exp_header :: "frame option"
  ws_done :: bool

text \<open>
  \<^verbatim>\<open>WritableStream.__init__\<close>, with \<open>sz\<close> for \<^verbatim>\<open>size\<close>. The segmented branch packs the size
  with \<^verbatim>\<open>struct.pack_into("<L", ...)\<close>, which raises for a size of \<open>2 ^ 32\<close> or more, before
  anything is sent.
\<close>

definition WritableStream_init ::
  "16 word \<Rightarrow> byte \<Rightarrow> nat option \<Rightarrow> bool \<Rightarrow> sdo_client \<Rightarrow>
   (WritableStream result \<times> sdo_client) option" where
  "WritableStream_init index subindex sz force_segment c =
     (let fp = \<lparr>ws_size = sz, ws_pos = 0, ws_toggle = 0, ws_exp_header = None,
                 ws_done = False\<rparr>
      in
      if sz = None \<or> the sz > 4 \<or> force_segment then
        (case (case sz of
                 None \<Rightarrow> Inr (REQUEST_DOWNLOAD, [0, 0, 0, 0])
               | Some n \<Rightarrow>
                   if n \<ge> 2 ^ 32 then Inl StructError
                   else Inr (REQUEST_DOWNLOAD OR SIZE_SPECIFIED, pack_L n)) of
           Inl e \<Rightarrow> Some (Inl e, c)
         | Inr (command, size_bytes) \<Rightarrow>
             (case request_response (SDO_STRUCT_pack command index subindex @ size_bytes) c of
                None \<Rightarrow> None
              | Some (Inl e, c1) \<Rightarrow> Some (Inl e, c1)
              | Some (Inr response, c1) \<Rightarrow>
                  (case unpack_from_B response of
                     Inl e \<Rightarrow> Some (Inl e, c1)
                   | Inr res_command \<Rightarrow>
                       if res_command \<noteq> RESPONSE_DOWNLOAD
                       then Some (Inl (unexpected_response res_command), c1)
                       else Some (Inr fp, c1))))
      else
        let command = REQUEST_DOWNLOAD OR EXPEDITED OR SIZE_SPECIFIED
                      OR push_bit 2 (of_nat (4 - the sz))
        in Some (Inr (fp\<lparr>ws_exp_header := Some (SDO_STRUCT_pack command index subindex)\<rparr>), c))"

text \<open>
  \<^verbatim>\<open>WritableStream.write\<close>. In the segmented branch the toggle and the done flag change
  before the request goes out, so they stay changed when the exchange fails. The last
  \<^verbatim>\<open>raise\<close> of that branch formats two \<^verbatim>\<open>%02X\<close> fields from one value, which is a
  \<^verbatim>\<open>TypeError\<close>.
\<close>

definition WritableStream_write ::
  "WritableStream \<Rightarrow> frame \<Rightarrow> sdo_client \<Rightarrow> ((nat result \<times> WritableStream) \<times> sdo_client) option"
  where
  "WritableStream_write fp b c =
     (if ws_done fp
      then Some ((Inl (RuntimeError ''All expected data has already been transmitted''), fp), c)
      else case ws_exp_header fp of
        Some exp_header \<Rightarrow>
          (case ws_size fp of
             None \<Rightarrow> Some ((Inl TypeError, fp), c)
           | Some n \<Rightarrow>
               if length b < n then Some ((Inr 0, fp), c)
               else if length b > 4
               then Some ((Inl (AssertionError ''More data received than expected''), fp), c)
               else
                 (case request_response (exp_header @ b @ replicate (4 - length b) 0) c of
                    None \<Rightarrow> None
                  | Some (Inl e, c1) \<Rightarrow> Some ((Inl e, fp), c1)
                  | Some (Inr response, c1) \<Rightarrow>
                      (case unpack_from_B response of
                         Inl e \<Rightarrow> Some ((Inl e, fp), c1)
                       | Inr res_command \<Rightarrow>
                           if res_command AND 0xE0 \<noteq> RESPONSE_DOWNLOAD
                           then Some ((Inl (unexpected_response res_command), fp), c1)
                           else Some ((Inr (length b),
                                       fp\<lparr>ws_done := True, ws_pos := ws_pos fp + length b\<rparr>),
                                      c1))))
      | None \<Rightarrow>
          let bytes_sent = min (length b) 7;
              last = (ws_size fp \<noteq> None \<and> ws_pos fp + bytes_sent \<ge> the (ws_size fp));
              command = REQUEST_SEGMENT_DOWNLOAD OR ws_toggle fp
                        OR (if last then NO_MORE_DATA else 0)
                        OR push_bit 1 (of_nat (7 - bytes_sent));
              fp1 = fp\<lparr>ws_toggle := ws_toggle fp XOR TOGGLE_BIT,
                         ws_done := (if last then True else ws_done fp)\<rparr>
          in
          (case request_response
                  (command # take bytes_sent b @ replicate (7 - bytes_sent) 0) c of
             None \<Rightarrow> None
           | Some (Inl e, c1) \<Rightarrow> Some ((Inl e, fp1), c1)
           | Some (Inr response, c1) \<Rightarrow>
               (case unpack_from_B response of
                  Inl e \<Rightarrow> Some ((Inl e, fp1), c1)
                | Inr res_command \<Rightarrow>
                    if res_command AND 0xE0 \<noteq> RESPONSE_SEGMENT_DOWNLOAD
                    then Some ((Inl TypeError, fp1), c1)
                    else Some ((Inr bytes_sent, fp1\<lparr>ws_pos := ws_pos fp + bytes_sent\<rparr>), c1))))"


text \<open>
  \<^verbatim>\<open>SdoClient.download\<close> opens its raw stream with the length of the data as the size:
  \<^verbatim>\<open>WritableStream(self, index, subindex, len(data), force_segment)\<close>. The data then go
  through an \<^verbatim>\<open>io.BufferedWriter\<close> of the standard library, which is not part of this
  development; \<open>download_stream\<close> is the stream that \<^verbatim>\<open>download\<close> creates.
\<close>

definition download_stream ::
  "16 word \<Rightarrow> byte \<Rightarrow> frame \<Rightarrow> bool \<Rightarrow> sdo_client \<Rightarrow>
   (WritableStream result \<times> sdo_client) option" where
  "download_stream index subindex data force_segment c =
     WritableStream_init index subindex (Some (length data)) force_segment c"

text \<open>
  The object dictionary entry of a \<^verbatim>\<open>Variable\<close>, as far as \<^verbatim>\<open>set_data\<close> reads it.
  \<^verbatim>\<open>Variable.set_data\<close> forces a segmented download when the data type of the entry is
  \<^verbatim>\<open>objectdictionary.DOMAIN\<close>. That constant is defined outside the files at hand, so it is
  the parameter \<open>DOMAIN\<close>.
\<close>

record od_variable =
  od_index :: "16 word"
  od_subindex :: byte
  od_data_type :: nat

definition set_data_stream ::
  "nat \<Rightarrow> od_variable \<Rightarrow> frame \<Rightarrow> sdo_client \<Rightarrow> (WritableStream result \<times> sdo_client) option"
  where
  "set_data_stream DOMAIN od data c =
     (let force_segment = (od_data_type od = DOMAIN)
      in download_stream (od_index od) (od_subindex od) data force_segment c)"

section \<open>Block transfer\<close>

subsection \<open>The checksum\<close>

text \<open>
  \<^verbatim>\<open>binascii.crc_hqx(data, value)\<close> of the Python library: the 16-bit CRC with the CCITT
  polynomial \<open>x^16 + x^12 + x^5 + 1\<close> (\<^verbatim>\<open>0x1021\<close>), most significant bit first, started
  at \<open>value\<close>, with no reflection and no final exclusive-or. \<open>crc_shift\<close> is the division
  step for one bit, \<open>crc_byte\<close> takes one byte of data in.
\<close>

definition crc_shift :: "16 word \<Rightarrow> 16 word" where
  "crc_shift x = (if bit x 15 then push_bit 1 x XOR 0x1021 else push_bit 1 x)"

definition crc_byte :: "16 word \<Rightarrow> byte \<Rightarrow> 16 word" where
  "crc_byte crc b =
     crc_shift (crc_shift (crc_shift (crc_shift (crc_shift (crc_shift (crc_shift (crc_shift
       (crc XOR push_bit 8 (ucast b)))))))))"

definition crc_hqx :: "frame \<Rightarrow> 16 word \<Rightarrow> 16 word" where
  "crc_hqx data crc = fold (\<lambda>b acc. crc_byte acc b) data crc"

subsection \<open>Sequencing of the stream methods\<close>

text \<open>
  A method of a stream returns a value or raises, and leaves a stream and a client behind
  either way. \<open>and_then\<close> runs the next statement on the value of the previous one and
  stops at the first exception.
\<close>

type_synonym ('a, 's) outcome = "('a result \<times> 's) \<times> sdo_client"

definition and_then ::
  "('a, 's) outcome \<Rightarrow> ('a \<Rightarrow> 's \<Rightarrow> sdo_client \<Rightarrow> ('b, 's) outcome) \<Rightarrow> ('b, 's) outcome" where
  "and_then m f = (case m of ((Inl e, s), c) \<Rightarrow> ((Inl e, s), c) | ((Inr x, s), c) \<Rightarrow> f x s c)"

text \<open>\<^verbatim>\<open>self.sdo_client.abort(code)\<close> followed by \<^verbatim>\<open>raise err\<close>.\<close>

definition abort_and_raise :: "nat \<Rightarrow> sdo_error \<Rightarrow> 's \<Rightarrow> sdo_client \<Rightarrow> ('a, 's) outcome" where
  "abort_and_raise code err s c =
     (case abort code c of (Inl e, c1) \<Rightarrow> ((Inl e, s), c1) | (Inr u, c1) \<Rightarrow> ((Inl err, s), c1))"

subsection \<open>\<^verbatim>\<open>BlockUploadStream\<close>\<close>

text \<open>
  The fields \<^verbatim>\<open>size\<close>, \<^verbatim>\<open>blksize\<close>, \<^verbatim>\<open>crc_supported\<close>, \<^verbatim>\<open>_done\<close>, \<^verbatim>\<open>pos\<close>, \<^verbatim>\<open>_crc\<close>,
  \<^verbatim>\<open>_server_crc\<close> and \<^verbatim>\<open>_ackseq\<close> of a \<^verbatim>\<open>BlockUploadStream\<close>, and the \<^verbatim>\<open>closed\<close> flag
  it inherits from \<^verbatim>\<open>io.IOBase\<close>.
\<close>

record BlockUploadStream =
  bu_size :: "nat option"
  bu_blksize :: nat
  bu_crc_supported :: bool
  bu_done :: bool
  bu_pos :: nat
  bu_crc :: "16 word"
  bu_server_crc :: "16 word option"
  bu_ackseq :: nat
  bu_closed :: bool














text \<open>\<^verbatim>\<open>BlockUploadStream.close\<close>.\<close>

definition BlockUploadStream_close ::
  "BlockUploadStream \<Rightarrow> sdo_client \<Rightarrow> (unit, BlockUploadStream) outcome" where
  "BlockUploadStream_close fp c =
     (if bu_closed fp then ((Inr (), fp), c)
      else
        let fp1 = fp\<lparr>bu_closed := True\<rparr> in
        if bu_done fp1 then
          (case send_request ((REQUEST_BLOCK_UPLOAD OR END_BLOCK_TRANSFER) # replicate 7 0) c of
             (Inl e, c1) \<Rightarrow> ((Inl e, fp1), c1)
           | (Inr u, c1) \<Rightarrow> ((Inr (), fp1), c1))
        else ((Inr (), fp1), c))"

subsection \<open>\<^verbatim>\<open>BlockDownloadStream\<close>\<close>

text \<open>
  The fields \<^verbatim>\<open>size\<close>, \<^verbatim>\<open>pos\<close>, \<^verbatim>\<open>_done\<close>, \<^verbatim>\<open>_seqno\<close>, \<^verbatim>\<open>_crc\<close>,
  \<^verbatim>\<open>_last_bytes_sent\<close>, \<^verbatim>\<open>_blksize\<close> and \<^verbatim>\<open>crc_supported\<close> of a
  \<^verbatim>\<open>BlockDownloadStream\<close>, and the inherited \<^verbatim>\<open>closed\<close> flag.
\<close>

record BlockDownloadStream =
  bd_size :: "nat option"
  bd_pos :: nat
  bd_done :: bool
  bd_seqno :: nat
  bd_crc :: "16 word"
  bd_last_bytes_sent :: nat
  bd_blksize :: nat
  bd_crc_supported :: bool
  bd_closed :: bool

text \<open>
  \<^verbatim>\<open>BlockDownloadStream.__init__\<close>. The block size of the server is byte 4 of the response
  (\<^verbatim>\<open>struct.unpack_from("B", response, 4)\<close>).
\<close>

definition BlockDownloadStream_init ::
  "16 word \<Rightarrow> byte \<Rightarrow> nat option \<Rightarrow> sdo_client \<Rightarrow>
   (BlockDownloadStream result \<times> sdo_client) option" where
  "BlockDownloadStream_init index subindex sz c =
     (let fp = \<lparr>bd_size = sz, bd_pos = 0, bd_done = False, bd_seqno = 0, bd_crc = 0,
                 bd_last_bytes_sent = 0, bd_blksize = 0, bd_crc_supported = False,
                 bd_closed = False\<rparr>;
          command = REQUEST_BLOCK_DOWNLOAD OR INITIATE_BLOCK_TRANSFER OR CRC_SUPPORTED
      in
      case (case sz of
              None \<Rightarrow> Inr (command, [0, 0, 0, 0])
            | Some n \<Rightarrow>
                if n \<ge> 2 ^ 32 then Inl StructError
                else Inr (command OR BLOCK_SIZE_SPECIFIED, pack_L n)) of
        Inl e \<Rightarrow> Some (Inl e, c)
      | Inr (command1, size_bytes) \<Rightarrow>
          (case request_response (SDO_STRUCT_pack command1 index subindex @ size_bytes) c of
             None \<Rightarrow> None
           | Some (Inl e, c1) \<Rightarrow> Some (Inl e, c1)
           | Some (Inr response, c1) \<Rightarrow>
               (case SDO_STRUCT_unpack_from response of
                  Inl e \<Rightarrow> Some (Inl e, c1)
                | Inr (res_command, res_index, res_subindex) \<Rightarrow>
                    if res_command AND 0xE0 \<noteq> RESPONSE_BLOCK_DOWNLOAD then
                      (case abort 0x05040001 c1 of
                         (Inl e, c2) \<Rightarrow> Some (Inl e, c2)
                       | (Inr u, c2) \<Rightarrow> Some (Inl (unexpected_response res_command), c2))
                    else if res_index \<noteq> index \<or> res_subindex \<noteq> subindex then
                      (case abort 0x08000000 c1 of
                         (Inl e, c2) \<Rightarrow> Some (Inl e, c2)
                       | (Inr u, c2) \<Rightarrow> Some (Inl (wrong_object res_index res_subindex), c2))
                    else
                      (case unpack_from_B (drop 4 response) of
                         Inl e \<Rightarrow> Some (Inl e, c1)
                       | Inr blksize \<Rightarrow>
                           Some (Inr (fp\<lparr>bd_blksize := unat blksize,
                                          bd_crc_supported :=
                                            (res_command AND CRC_SUPPORTED \<noteq> 0)\<rparr>), c1)))))"

text \<open>
  \<^verbatim>\<open>BlockDownloadStream._block_ack\<close>: \<^verbatim>\<open>struct.unpack_from("BBB", response)\<close> needs three
  bytes.
\<close>

definition block_ack ::
  "BlockDownloadStream \<Rightarrow> sdo_client \<Rightarrow> (unit, BlockDownloadStream) outcome" where
  "block_ack fp c =
     (case read_response c of
        (Inl e, c1) \<Rightarrow> ((Inl e, fp), c1)
      | (Inr response, c1) \<Rightarrow>
          (case response of
             res_command # ackseq # blksize # _ \<Rightarrow>
               if res_command AND 0xE0 \<noteq> RESPONSE_BLOCK_DOWNLOAD
               then abort_and_raise 0x05040001 (unexpected_response res_command) fp c1
               else if res_command AND 0x3 \<noteq> BLOCK_TRANSFER_RESPONSE
               then abort_and_raise 0x05040001
                      (SdoCommunicationError
                         ''Server did not respond with a block download response'') fp c1
               else if unat ackseq \<noteq> bd_blksize fp
               then abort_and_raise 0x05040003
                      (SdoCommunicationError
                         (fmt_d (unat ackseq) @ '' of '' @ fmt_d (bd_blksize fp)
                          @ '' sequences were received. Retransmission is not supported yet.''))
                      fp c1
               else ((Inr (), fp\<lparr>bd_blksize := unat blksize, bd_seqno := 0\<rparr>), c1)
           | _ \<Rightarrow> ((Inl StructError, fp), c1)))"

text \<open>
  \<^verbatim>\<open>BlockDownloadStream.send(b, end)\<close>, with \<open>fin\<close> for \<^verbatim>\<open>end\<close>. The sequence number is a
  Python integer; \<^verbatim>\<open>request[0] = command\<close> raises \<^verbatim>\<open>ValueError\<close> once it exceeds 255.
\<close>

definition send ::
  "frame \<Rightarrow> bool \<Rightarrow> BlockDownloadStream \<Rightarrow> sdo_client \<Rightarrow> (unit, BlockDownloadStream) outcome"
  where
  "send b fin fp c =
     (if length b > 7 then ((Inl (AssertionError ''Max 7 bytes can be sent''), fp), c)
      else if \<not> fin \<and> length b \<noteq> 7
      then ((Inl (AssertionError ''Less than 7 bytes only allowed if last data''), fp), c)
      else
        let seqno = bd_seqno fp + 1;
            fp1 = (if fin
                   then fp\<lparr>bd_seqno := seqno, bd_done := True, bd_blksize := seqno,
                           bd_last_bytes_sent := length b\<rparr>
                   else fp\<lparr>bd_seqno := seqno\<rparr>)
        in
        if seqno > 255 then ((Inl ValueError, fp1), c)
        else
          let command = (if fin then of_nat seqno OR NO_MORE_BLOCKS else of_nat seqno) in
          (case send_request (command # b @ replicate (7 - length b) 0) c of
             (Inl e, c1) \<Rightarrow> ((Inl e, fp1), c1)
           | (Inr u, c1) \<Rightarrow>
               let fp2 = fp1\<lparr>bd_pos := bd_pos fp1 + length b\<rparr>;
                   fp3 = (if bd_crc_supported fp2
                          then fp2\<lparr>bd_crc := crc_hqx b (bd_crc fp2)\<rparr> else fp2)
               in
               if bd_seqno fp3 \<ge> bd_blksize fp3 then block_ack fp3 c1
               else ((Inr (), fp3), c1)))"

text \<open>
  \<^verbatim>\<open>BlockDownloadStream.write\<close>: the number of bytes taken, or \<^verbatim>\<open>None\<close> for a short chunk
  in the middle of the data.
\<close>

definition BlockDownloadStream_write ::
  "frame \<Rightarrow> BlockDownloadStream \<Rightarrow> sdo_client \<Rightarrow> (nat option, BlockDownloadStream) outcome"
  where
  "BlockDownloadStream_write b fp c =
     (if bd_done fp
      then ((Inl (RuntimeError ''All expected data has already been transmitted''), fp), c)
      else
        let data = take 7 b in
        if bd_size fp \<noteq> None \<and> bd_pos fp + length data \<ge> the (bd_size fp)
        then and_then (send data True fp c) (\<lambda>u fp1 c1. ((Inr (Some (length data)), fp1), c1))
        else if length data < 7 then ((Inr None, fp), c)
        else and_then (send data False fp c) (\<lambda>u fp1 c1. ((Inr (Some (length data)), fp1), c1)))"

text \<open>\<^verbatim>\<open>BlockDownloadStream.close\<close>.\<close>

definition BlockDownloadStream_close ::
  "BlockDownloadStream \<Rightarrow> sdo_client \<Rightarrow> (unit, BlockDownloadStream) outcome option" where
  "BlockDownloadStream_close fp c =
     (if bd_closed fp then Some ((Inr (), fp), c)
      else
        let fp1 = fp\<lparr>bd_closed := True\<rparr>;
            command = REQUEST_BLOCK_DOWNLOAD OR END_BLOCK_TRANSFER
                      OR push_bit 2 (of_nat (7 - bd_last_bytes_sent fp1));
            crc_bytes = (if bd_crc_supported fp1 then pack_H (bd_crc fp1) else [0, 0])
        in
        case request_response (command # crc_bytes @ replicate 5 0) c of
          None \<Rightarrow> None
        | Some (Inl e, c1) \<Rightarrow> Some ((Inl e, fp1), c1)
        | Some (Inr response, c1) \<Rightarrow>
            (case unpack_from_B response of
               Inl e \<Rightarrow> Some ((Inl e, fp1), c1)
             | Inr res_command \<Rightarrow>
                 if res_command AND END_BLOCK_TRANSFER = 0
                 then Some ((Inl (SdoCommunicationError ''Block download unsuccessful''), fp1), c1)
                 else Some ((Inr (), fp1), c1)))"

section \<open>Clients of the scenarios\<close>

text \<open>
  A client with the defaults of \<^verbatim>\<open>SdoClient\<close> for node 1, on a silent bus that takes
  every frame: \<^verbatim>\<open>RESPONSE_TIMEOUT = 0.3\<close>, \<^verbatim>\<open>MAX_RETRIES = 1\<close>,
  \<^verbatim>\<open>pause_before_send = 0.0\<close>, an empty mailbox.
\<close>

definition default_client :: sdo_client where
  "default_client =
     \<lparr>rx_cobid = 0x601, tx_cobid = 0x581, RESPONSE_TIMEOUT = 300, MAX_RETRIES = 1,
      pause_before_send = 0, responses = [], clock = 0, bus_rx = [], bus_busy = [],
      sent = []\<rparr>"

text \<open>The same client, with a server that answers with the given frames, one per millisecond.\<close>

definition client_with_server :: "frame list \<Rightarrow> sdo_client" where
  "client_with_server frames = default_client\<lparr>bus_rx := zip [1..<Suc (length frames)] frames\<rparr>"

section \<open>Properties\<close>

subsection \<open>Evaluation of the scenarios\<close>

lemmas client_defs = default_client_def client_with_server_def

lemmas codec_defs = unpack_from_B_def unpack_from_L_def unpack_L_def pack_L_def pack_H_def
  unpack_H_def SDO_STRUCT_pack_def SDO_STRUCT_unpack_from_def

lemmas driver_defs = request_response_def deliver_def request_loop.simps send_request_def
  send_loop.simps send_message_def read_response_def responses_get_def sleep_def abort_def
  on_response_def

lemmas upload_defs = upload_def ReadableStream_init_def ReadableStream_read_def read_segment_def
  read_sized_def readall_def readall_loop.simps


lemma replicate_small [simp]:
  "replicate 2 x = [x, x]"
  "replicate 3 x = [x, x, x]"
  "replicate 4 x = [x, x, x, x]"
  "replicate 5 x = [x, x, x, x, x]"
  "replicate 6 x = [x, x, x, x, x, x]"
  "replicate 7 x = [x, x, x, x, x, x, x]"
  by (simp_all add: numeral_eq_Suc)

lemma crc_shift_numeral:
  "crc_shift (numeral k) =
     (if bit (numeral k :: 16 word) 15 then push_bit 1 (numeral k) XOR 0x1021
      else push_bit 1 (numeral k))"
  "crc_shift 0 = 0"
  "crc_shift 1 = 2"
  by (simp_all add: crc_shift_def)

lemmas crc_eval = crc_hqx_def crc_byte_def crc_shift_numeral

subsection \<open>The mailbox and the bus\<close>

lemma fold_on_response:
  "fold on_response fs c = c\<lparr>responses := responses c @ fs\<rparr>"
  by (induction fs arbitrary: c) (simp_all add: on_response_def)

lemma send_request_idle:
  assumes "bus_busy c = []"
  shows "send_request request c =
           (Inr (), (if pause_before_send c \<noteq> 0 then sleep (pause_before_send c) c else c)
                      \<lparr>sent := sent c @ [request]\<rparr>)"
  using assms by (simp add: send_request_def send_loop.simps send_message_def sleep_def)

lemma deliver_bus [simp]:
  "sent (deliver c) = sent c" "bus_busy (deliver c) = bus_busy c"
  "pause_before_send (deliver c) = pause_before_send c" "MAX_RETRIES (deliver c) = MAX_RETRIES c"
  by (simp_all add: deliver_def fold_on_response)

lemma read_response_bus:
  assumes "read_response c = (r, c1)"
  shows "sent c1 = sent c \<and> bus_busy c1 = bus_busy c"
proof -
  obtain f c' where g: "responses_get c = (f, c')"
    by (cases "responses_get c")
  then have "sent c' = sent (deliver c) \<and> bus_busy c' = bus_busy (deliver c)"
    by (auto simp: responses_get_def Let_def sleep_def split: list.splits if_splits)
  moreover have "c1 = c'"
    using assms g by (auto simp: read_response_def split: option.splits sum.splits if_splits)
  ultimately show ?thesis
    by simp
qed

lemma deliver_idle:
  assumes "bus_rx c = []"
  shows "deliver c = c"
  using assms by (cases c) (simp add: deliver_def)

lemma read_response_silent:
  assumes "responses c = []" and "bus_rx c = []"
  shows "read_response c =
           (Inl (SdoCommunicationError ''No SDO response received''), sleep (RESPONSE_TIMEOUT c) c)"
  using assms by (simp add: read_response_def responses_get_def deliver_idle)

lemma send_request_idle_bus:
  assumes "bus_busy c = []" and "send_request request c = (r, c1)"
  shows "r = Inr () \<and> sent c1 = sent c @ [request] \<and> bus_busy c1 = []"
  using assms by (auto simp: send_request_idle sleep_def)

lemma request_loop_sent:
  assumes "request_loop retries_left request c = Some y"
  shows "bus_busy c = [] \<longrightarrow>
           (\<exists>k. sent (snd y) = sent c @ replicate (Suc k) request) \<and> bus_busy (snd y) = []"
proof (rule request_loop.raw_induct [OF _ assms], goal_cases)
  case (1 loop retries_left request c y)
  show ?case
  proof
    assume idle: "bus_busy c = []"
    obtain r1 c1 where s: "send_request request c = (r1, c1)"
      by (cases "send_request request c")
    from send_request_idle_bus [OF idle s]
    have r1: "r1 = Inr ()" and c1: "sent c1 = sent c @ [request]" "bus_busy c1 = []"
      by simp_all
    obtain r2 c2 where rd: "read_response c1 = (r2, c2)"
      by (cases "read_response c1")
    from read_response_bus [OF rd] c1
    have c2: "sent c2 = sent c @ [request]" "bus_busy c2 = []"
      by simp_all
    have first: "\<exists>k. sent c2 = sent c @ replicate (Suc k) request"
      using c2(1) by (intro exI [of _ 0]) simp
    have "loop (retries_left - 1) request c2 = Some y \<or> y = (r2, c2)"
      using 1(2) by (simp add: s r1 rd split: sum.splits sdo_error.splits if_splits)
    then consider (again) "loop (retries_left - 1) request c2 = Some y" | (out) "snd y = c2"
      by auto
    then show "(\<exists>k. sent (snd y) = sent c @ replicate (Suc k) request) \<and> bus_busy (snd y) = []"
    proof cases
      case again
      from 1(1) [OF again] c2(2)
      obtain k where "sent (snd y) = sent c2 @ replicate (Suc k) request" "bus_busy (snd y) = []"
        by blast
      then have "sent (snd y) = sent c @ replicate (Suc (Suc k)) request" "bus_busy (snd y) = []"
        using c2(1) by simp_all
      then show ?thesis
        by blast
    next
      case out
      with first c2(2) show ?thesis
        by simp
    qed
  qed
qed

lemma request_response_sent:
  assumes "request_response request c = Some (r, c1)" and "bus_busy c = []"
  shows "\<exists>k. sent c1 = sent c @ replicate (Suc k) request"
proof -
  let ?c0 = "deliver c"
  let ?flushed = "if responses ?c0 \<noteq> [] then ?c0\<lparr>responses := []\<rparr> else ?c0"
  have loop: "request_loop (MAX_RETRIES ?flushed) request ?flushed = Some (r, c1)"
    using assms(1) by (simp add: request_response_def Let_def)
  have "bus_busy ?flushed = []" and "sent ?flushed = sent c"
    using assms(2) by simp_all
  with request_loop_sent [OF loop] show ?thesis
    by simp
qed

text \<open>
  With a positive number of retries the loop of \<^verbatim>\<open>request_response\<close> ends, whatever the
  server does: every round that does not return uses up one retry.
\<close>

lemma request_loop_returns:
  assumes "0 < retries_left"
  shows "\<exists>y. request_loop retries_left request c = Some y"
  using assms
proof (induction "nat retries_left" arbitrary: retries_left c)
  case 0
  then show ?case
    by simp
next
  case (Suc n)
  obtain r1 c1 where s: "send_request request c = (r1, c1)"
    by (cases "send_request request c")
  obtain r2 c2 where rd: "read_response c1 = (r2, c2)"
    by (cases "read_response c1")
  show ?case
  proof (cases "(\<exists>u. r1 = Inr u) \<and> (\<exists>m. r2 = Inl (SdoCommunicationError m))
                \<and> retries_left - 1 \<noteq> 0")
    case True
    then have step:
      "request_loop retries_left request c = request_loop (retries_left - 1) request c2"
      by (subst request_loop.simps) (auto simp: s rd)
    have "n = nat (retries_left - 1)" and "0 < retries_left - 1"
      using Suc.hyps(2) Suc.prems True by auto
    from Suc.hyps(1) [OF this] step show ?thesis
      by simp
  next
    case False
    then show ?thesis
      by (subst request_loop.simps)
         (auto simp: s rd split: sum.splits sdo_error.splits)
  qed
qed

lemma request_response_returns:
  assumes "0 < MAX_RETRIES c"
  shows "\<exists>r c1. request_response request c = Some (r, c1)"
proof -
  let ?d = "deliver c"
  let ?flushed = "if responses ?d \<noteq> [] then ?d\<lparr>responses := []\<rparr> else ?d"
  have "0 < MAX_RETRIES ?flushed"
    using assms by simp
  from request_loop_returns [OF this, of request ?flushed]
  obtain y where "request_loop (MAX_RETRIES ?flushed) request ?flushed = Some y"
    by blast
  then have "request_response request c = Some y"
    by (simp add: request_response_def Let_def)
  then show ?thesis
    by (cases y) simp
qed

subsection \<open>Expedited upload\<close>

text \<open>
  C1. Let the initiate request of \<^verbatim>\<open>upload(index, subindex)\<close> be answered by a frame of at
  least four bytes that echoes the index and the subindex and whose command byte \<open>cmd\<close> has
  class \<^verbatim>\<open>RESPONSE_UPLOAD\<close> with the expedited and the size bit set. Then \<^verbatim>\<open>upload\<close> returns
  bytes 4 to 4 + length of that frame, with length \<open>4 - ((cmd >> 2) & 3)\<close>: exactly that many
  bytes when the frame has its full eight. The client is left as the initiate exchange
  left it, so nothing more is sent or received, and the stream is done after the one read.
\<close>

theorem expedited_upload_returns_payload:
  assumes "request_response (SDO_STRUCT_pack REQUEST_UPLOAD index subindex @ [0, 0, 0, 0]) c
             = Some (Inr response, c1)"
    and "response = cmd # lo # hi # sub # payload"
    and "unpack_H lo hi = index" and "sub = subindex"
    and "cmd AND 0xE0 = RESPONSE_UPLOAD"
    and "cmd AND EXPEDITED \<noteq> 0" and "cmd AND SIZE_SPECIFIED \<noteq> 0"
    and "len = 4 - unat (drop_bit 2 cmd AND 0x3)"
    and "data = take len (drop 4 response)"
  shows "upload index subindex c = Some (Inr data, c1)
         \<and> ReadableStream_init index subindex c =
             Some (Inr \<lparr>rs_done = False, rs_toggle = 0, rs_pos = length data,
                        rs_size = Some len, rs_exp_data = Some data\<rparr>, c1)
         \<and> ReadableStream_read
               \<lparr>rs_done = False, rs_toggle = 0, rs_pos = length data,
                rs_size = Some len, rs_exp_data = Some data\<rparr> (Some (- 1)) c1 =
             Some ((Inr data, \<lparr>rs_done = True, rs_toggle = 0, rs_pos = length data,
                                rs_size = Some len, rs_exp_data = Some data\<rparr>), c1)
         \<and> (length response = 8 \<longrightarrow> length data = len)"
proof -
  let ?len = "4 - unat (drop_bit 2 cmd AND 0x3)"
  let ?data = "take ?len payload"
  let ?fp = "\<lparr>rs_done = False, rs_toggle = 0, rs_pos = length ?data,
              rs_size = Some ?len, rs_exp_data = Some ?data\<rparr>"
  have short: "take ?len (take 4 payload) = ?data"
    by (simp add: min_def)
  have len: "len = ?len" and data: "data = ?data"
    using assms(2,8,9) by simp_all
  have init: "ReadableStream_init index subindex c = Some (Inr ?fp, c1)"
    using assms(1-7) short
    by (simp add: ReadableStream_init_def SDO_STRUCT_unpack_from_def Let_def)
  have rd: "ReadableStream_read ?fp (Some (- 1)) c1 = Some ((Inr ?data, ?fp\<lparr>rs_done := True\<rparr>), c1)"
    by (simp add: ReadableStream_read_def)
  have up: "upload index subindex c = Some (Inr ?data, c1)"
    using rd by (simp add: upload_def init)
  have full: "length ?data = ?len" if "length response = 8"
    using that assms(2) by simp
  show ?thesis
    unfolding len data using up init rd full by simp
qed

text \<open>Scenario 1: request \<^verbatim>\<open>40 17 10 00 00 00 00 00\<close>, response \<^verbatim>\<open>4B 17 10 00 34 12 00 00\<close>.\<close>

theorem expedited_upload_scenario_1_witness:
  "request_response (SDO_STRUCT_pack REQUEST_UPLOAD 0x1017 0 @ [0, 0, 0, 0])
     (client_with_server [[0x4B, 0x17, 0x10, 0x00, 0x34, 0x12, 0x00, 0x00]])
     = Some (Inr [0x4B, 0x17, 0x10, 0x00, 0x34, 0x12, 0x00, 0x00],
             default_client\<lparr>clock := 1, sent := [[0x40, 0x17, 0x10, 0x00, 0, 0, 0, 0]]\<rparr>)
   \<and> unpack_H 0x17 0x10 = 0x1017
   \<and> (0x4B :: byte) AND 0xE0 = RESPONSE_UPLOAD
   \<and> (0x4B :: byte) AND EXPEDITED \<noteq> 0 \<and> (0x4B :: byte) AND SIZE_SPECIFIED \<noteq> 0
   \<and> upload 0x1017 0 (client_with_server [[0x4B, 0x17, 0x10, 0x00, 0x34, 0x12, 0x00, 0x00]])
       = Some (Inr [0x34, 0x12],
               default_client\<lparr>clock := 1, sent := [[0x40, 0x17, 0x10, 0x00, 0, 0, 0, 0]]\<rparr>)"
proof -
  let ?srv = "client_with_server [[0x4B, 0x17, 0x10, 0x00, 0x34, 0x12, 0x00, 0x00]]"
  let ?fin = "default_client\<lparr>clock := 1, sent := [[0x40, 0x17, 0x10, 0x00, 0, 0, 0, 0]]\<rparr>"
  have rr: "request_response (SDO_STRUCT_pack REQUEST_UPLOAD 0x1017 0 @ [0, 0, 0, 0]) ?srv
              = Some (Inr [0x4B, 0x17, 0x10, 0x00, 0x34, 0x12, 0x00, 0x00], ?fin)"
    by (simp add: client_defs driver_defs codec_defs)
  have ix: "unpack_H 0x17 0x10 = 0x1017"
    by (simp add: unpack_H_def)
  have cl: "(0x4B :: byte) AND 0xE0 = RESPONSE_UPLOAD"
    and ex: "(0x4B :: byte) AND EXPEDITED \<noteq> 0"
    and sz: "(0x4B :: byte) AND SIZE_SPECIFIED \<noteq> 0"
    by simp_all
  from expedited_upload_returns_payload [OF rr refl ix refl cl ex sz refl refl]
  have "upload 0x1017 0 ?srv = Some (Inr [0x34, 0x12], ?fin)"
    by simp
  with rr ix cl ex sz show ?thesis
    by simp
qed

subsection \<open>Segmented upload\<close>

text \<open>
  C2. A \<^verbatim>\<open>read\<close> of one segment (a size that is neither \<^verbatim>\<open>None\<close> nor negative, on a stream
  that is not done and holds no expedited data) sends \<^verbatim>\<open>REQUEST_SEGMENT_UPLOAD | toggle\<close>.
  Let the response have command byte \<open>cmd\<close> of class \<^verbatim>\<open>RESPONSE_SEGMENT_UPLOAD\<close>. If its
  toggle bit equals the toggle of the stream, the read returns bytes 1 to 1 + length with
  length \<open>7 - ((cmd >> 1) & 7)\<close>, the stream is done exactly when \<open>cmd & 1\<close> is set, the
  toggle is flipped and \<open>pos\<close> has grown by length. If the toggle bits differ, the read
  raises \<^verbatim>\<open>SdoCommunicationError("Toggle bit mismatch")\<close> and the stream is unchanged.
\<close>

theorem segment_upload_exchange:
  assumes "\<not> rs_done fp" and "rs_exp_data fp = None" and "0 \<le> n"
    and "request_response ((REQUEST_SEGMENT_UPLOAD OR rs_toggle fp) # replicate 7 0) c
           = Some (Inr response, c1)"
    and "response = cmd # payload"
    and "cmd AND 0xE0 = RESPONSE_SEGMENT_UPLOAD"
    and "len = 7 - unat (drop_bit 1 cmd AND 0x7)"
  shows "ReadableStream_read fp (Some n) c =
           (if cmd AND TOGGLE_BIT = rs_toggle fp
            then Some ((Inr (take len (drop 1 response)),
                        fp\<lparr>rs_done := (cmd AND NO_MORE_DATA \<noteq> 0),
                           rs_toggle := rs_toggle fp XOR TOGGLE_BIT,
                           rs_pos := rs_pos fp + len\<rparr>), c1)
            else Some ((Inl (SdoCommunicationError ''Toggle bit mismatch''), fp), c1))"
  using assms
  by (simp add: ReadableStream_read_def read_segment_def unpack_from_B_def Let_def)

text \<open>
  The first segment of scenario 3, and the same response on a stream whose toggle is
  \<^verbatim>\<open>0x10\<close>.
\<close>

theorem segment_upload_exchange_witness:
  "request_response ((REQUEST_SEGMENT_UPLOAD OR 0) # replicate 7 0)
     (client_with_server [[0x00, 0x01, 0x02, 0x03, 0x04, 0x05, 0x06, 0x07]])
     = Some (Inr [0x00, 0x01, 0x02, 0x03, 0x04, 0x05, 0x06, 0x07],
             default_client\<lparr>clock := 1, sent := [[0x60, 0, 0, 0, 0, 0, 0, 0]]\<rparr>)
   \<and> (0x00 :: byte) AND 0xE0 = RESPONSE_SEGMENT_UPLOAD
   \<and> ReadableStream_read
         \<lparr>rs_done = False, rs_toggle = 0, rs_pos = 0, rs_size = Some 10, rs_exp_data = None\<rparr>
         (Some 7) (client_with_server [[0x00, 0x01, 0x02, 0x03, 0x04, 0x05, 0x06, 0x07]])
       = Some ((Inr [0x01, 0x02, 0x03, 0x04, 0x05, 0x06, 0x07],
                \<lparr>rs_done = False, rs_toggle = 0x10, rs_pos = 7, rs_size = Some 10,
                 rs_exp_data = None\<rparr>),
               default_client\<lparr>clock := 1, sent := [[0x60, 0, 0, 0, 0, 0, 0, 0]]\<rparr>)
   \<and> request_response ((REQUEST_SEGMENT_UPLOAD OR 0x10) # replicate 7 0)
         (client_with_server [[0x00, 0x01, 0x02, 0x03, 0x04, 0x05, 0x06, 0x07]])
       = Some (Inr [0x00, 0x01, 0x02, 0x03, 0x04, 0x05, 0x06, 0x07],
               default_client\<lparr>clock := 1, sent := [[0x70, 0, 0, 0, 0, 0, 0, 0]]\<rparr>)
   \<and> ReadableStream_read
         \<lparr>rs_done = False, rs_toggle = 0x10, rs_pos = 7, rs_size = Some 10, rs_exp_data = None\<rparr>
         (Some 7) (client_with_server [[0x00, 0x01, 0x02, 0x03, 0x04, 0x05, 0x06, 0x07]])
       = Some ((Inl (SdoCommunicationError ''Toggle bit mismatch''),
                \<lparr>rs_done = False, rs_toggle = 0x10, rs_pos = 7, rs_size = Some 10,
                 rs_exp_data = None\<rparr>),
               default_client\<lparr>clock := 1, sent := [[0x70, 0, 0, 0, 0, 0, 0, 0]]\<rparr>)"
proof -
  let ?resp = "[0x00, 0x01, 0x02, 0x03, 0x04, 0x05, 0x06, 0x07] :: frame"
  let ?srv = "client_with_server [?resp]"
  let ?even = "\<lparr>rs_done = False, rs_toggle = 0, rs_pos = 0, rs_size = Some 10,
                rs_exp_data = None\<rparr>"
  let ?odd = "\<lparr>rs_done = False, rs_toggle = 0x10, rs_pos = 7, rs_size = Some 10,
               rs_exp_data = None\<rparr>"
  have rr0: "request_response ((REQUEST_SEGMENT_UPLOAD OR rs_toggle ?even) # replicate 7 0) ?srv
              = Some (Inr ?resp, default_client\<lparr>clock := 1, sent := [[0x60, 0, 0, 0, 0, 0, 0, 0]]\<rparr>)"
    by (simp add: client_defs driver_defs codec_defs)
  have rr1: "request_response ((REQUEST_SEGMENT_UPLOAD OR rs_toggle ?odd) # replicate 7 0) ?srv
              = Some (Inr ?resp, default_client\<lparr>clock := 1, sent := [[0x70, 0, 0, 0, 0, 0, 0, 0]]\<rparr>)"
    by (simp add: client_defs driver_defs codec_defs)
  have cl: "(0x00 :: byte) AND 0xE0 = RESPONSE_SEGMENT_UPLOAD"
    by simp
  have pos: "(0::int) \<le> 7"
    by simp
  note ok = segment_upload_exchange [OF _ _ pos rr0 refl cl refl]
  note bad = segment_upload_exchange [OF _ _ pos rr1 refl cl refl]
  show ?thesis
    using rr0 rr1 ok bad by simp
qed

subsection \<open>Scenario 3\<close>

text \<open>
  C3. With the frames as the scenario prints them the upload does not return ten bytes.
  The last response \<^verbatim>\<open>1D 08 09 0A 00 00 00 00\<close> has \<open>(0x1D >> 1) & 7 = 6\<close> unused bytes, so
  it carries one byte of data, not three.
\<close>

theorem scenario_3_as_printed_counterexample:
  "map_option fst
     (upload 0x1008 0
        (client_with_server
           [[0x41, 0x08, 0x10, 0x00, 0x0A, 0x00, 0x00, 0x00],
            [0x00, 0x01, 0x02, 0x03, 0x04, 0x05, 0x06, 0x07],
            [0x1D, 0x08, 0x09, 0x0A, 0x00, 0x00, 0x00, 0x00]]))
   \<noteq> Some (Inr [0x01, 0x02, 0x03, 0x04, 0x05, 0x06, 0x07, 0x08, 0x09, 0x0A])"
  by (simp add: client_defs driver_defs codec_defs upload_defs upt_rec)

text \<open>
  C3, amended. With the last response \<^verbatim>\<open>19 08 09 0A 00 00 00 00\<close> (toggle 1, four unused
  bytes, no more data) the upload of \<^verbatim>\<open>0x1008:0\<close> sends \<^verbatim>\<open>40 08 10 00 ..\<close>, \<^verbatim>\<open>60 ..\<close> and
  \<^verbatim>\<open>70 ..\<close>, returns the ten bytes \<^verbatim>\<open>01 .. 0A\<close> and leaves the stream done at
  \<open>pos = 10\<close>. With the last response \<^verbatim>\<open>1D 08 09 0A 00 00 00 00\<close> it returns the eight bytes
  \<^verbatim>\<open>01 .. 08\<close> and ends at \<open>pos = 8\<close>.
\<close>

theorem scenario_3_segmented_upload:
  "ReadableStream_init 0x1008 0
     (client_with_server
        [[0x41, 0x08, 0x10, 0x00, 0x0A, 0x00, 0x00, 0x00],
         [0x00, 0x01, 0x02, 0x03, 0x04, 0x05, 0x06, 0x07],
         [0x19, 0x08, 0x09, 0x0A, 0x00, 0x00, 0x00, 0x00]])
     = Some (Inr \<lparr>rs_done = False, rs_toggle = 0, rs_pos = 0, rs_size = Some 10,
                  rs_exp_data = None\<rparr>,
             default_client
               \<lparr>clock := 1,
                bus_rx := [(2, [0x00, 0x01, 0x02, 0x03, 0x04, 0x05, 0x06, 0x07]),
                           (3, [0x19, 0x08, 0x09, 0x0A, 0x00, 0x00, 0x00, 0x00])],
                sent := [[0x40, 0x08, 0x10, 0x00, 0, 0, 0, 0]]\<rparr>)
   \<and> ReadableStream_read
         \<lparr>rs_done = False, rs_toggle = 0, rs_pos = 0, rs_size = Some 10, rs_exp_data = None\<rparr>
         (Some (- 1))
         (default_client
            \<lparr>clock := 1,
             bus_rx := [(2, [0x00, 0x01, 0x02, 0x03, 0x04, 0x05, 0x06, 0x07]),
                        (3, [0x19, 0x08, 0x09, 0x0A, 0x00, 0x00, 0x00, 0x00])],
             sent := [[0x40, 0x08, 0x10, 0x00, 0, 0, 0, 0]]\<rparr>)
       = Some ((Inr [0x01, 0x02, 0x03, 0x04, 0x05, 0x06, 0x07, 0x08, 0x09, 0x0A],
                \<lparr>rs_done = True, rs_toggle = 0, rs_pos = 10, rs_size = Some 10,
                 rs_exp_data = None\<rparr>),
               default_client
                 \<lparr>clock := 3,
                  sent := [[0x40, 0x08, 0x10, 0x00, 0, 0, 0, 0], [0x60, 0, 0, 0, 0, 0, 0, 0],
                           [0x70, 0, 0, 0, 0, 0, 0, 0]]\<rparr>)
   \<and> upload 0x1008 0
         (client_with_server
            [[0x41, 0x08, 0x10, 0x00, 0x0A, 0x00, 0x00, 0x00],
             [0x00, 0x01, 0x02, 0x03, 0x04, 0x05, 0x06, 0x07],
             [0x19, 0x08, 0x09, 0x0A, 0x00, 0x00, 0x00, 0x00]])
       = Some (Inr [0x01, 0x02, 0x03, 0x04, 0x05, 0x06, 0x07, 0x08, 0x09, 0x0A],
               default_client
                 \<lparr>clock := 3,
                  sent := [[0x40, 0x08, 0x10, 0x00, 0, 0, 0, 0], [0x60, 0, 0, 0, 0, 0, 0, 0],
                           [0x70, 0, 0, 0, 0, 0, 0, 0]]\<rparr>)
   \<and> ReadableStream_read
         \<lparr>rs_done = False, rs_toggle = 0, rs_pos = 0, rs_size = Some 10, rs_exp_data = None\<rparr>
         (Some (- 1))
         (default_client
            \<lparr>clock := 1,
             bus_rx := [(2, [0x00, 0x01, 0x02, 0x03, 0x04, 0x05, 0x06, 0x07]),
                        (3, [0x1D, 0x08, 0x09, 0x0A, 0x00, 0x00, 0x00, 0x00])],
             sent := [[0x40, 0x08, 0x10, 0x00, 0, 0, 0, 0]]\<rparr>)
       = Some ((Inr [0x01, 0x02, 0x03, 0x04, 0x05, 0x06, 0x07, 0x08],
                \<lparr>rs_done = True, rs_toggle = 0, rs_pos = 8, rs_size = Some 10,
                 rs_exp_data = None\<rparr>),
               default_client
                 \<lparr>clock := 3,
                  sent := [[0x40, 0x08, 0x10, 0x00, 0, 0, 0, 0], [0x60, 0, 0, 0, 0, 0, 0, 0],
                           [0x70, 0, 0, 0, 0, 0, 0, 0]]\<rparr>)"
  by (simp add: client_defs driver_defs codec_defs upload_defs upt_rec)

theorem scenario_3_segmented_upload_witness:
  "map_option fst
     (upload 0x1008 0
        (client_with_server
           [[0x41, 0x08, 0x10, 0x00, 0x0A, 0x00, 0x00, 0x00],
            [0x00, 0x01, 0x02, 0x03, 0x04, 0x05, 0x06, 0x07],
            [0x19, 0x08, 0x09, 0x0A, 0x00, 0x00, 0x00, 0x00]]))
   = Some (Inr [0x01, 0x02, 0x03, 0x04, 0x05, 0x06, 0x07, 0x08, 0x09, 0x0A])"
  using scenario_3_segmented_upload by simp

subsection \<open>Timeout and retry\<close>

text \<open>
  C4. With the defaults the request of scenario 6 goes out once: after one silent timeout
  of 300 ms \<^verbatim>\<open>request_response\<close> raises, having sent the frame a single time. A second
  transmission takes \<^verbatim>\<open>MAX_RETRIES = 2\<close>.
\<close>

theorem request_response_default_single_attempt:
  "request_response [0x40, 0x08, 0x10, 0, 0, 0, 0, 0] default_client =
     Some (Inl (SdoCommunicationError ''No SDO response received''),
           default_client\<lparr>clock := 300, sent := [[0x40, 0x08, 0x10, 0, 0, 0, 0, 0]]\<rparr>)"
  by (simp add: client_defs driver_defs)

lemma request_response_two_attempts:
  "request_response [0x40, 0x08, 0x10, 0, 0, 0, 0, 0] (default_client\<lparr>MAX_RETRIES := 2\<rparr>) =
     Some (Inl (SdoCommunicationError ''No SDO response received''),
           default_client\<lparr>MAX_RETRIES := 2, clock := 600,
              sent := [[0x40, 0x08, 0x10, 0, 0, 0, 0, 0], [0x40, 0x08, 0x10, 0, 0, 0, 0, 0]]\<rparr>)"
  by (simp add: client_defs driver_defs)

text \<open>
  In general: on a silent bus that takes every frame, a client with \<^verbatim>\<open>MAX_RETRIES = n + 1\<close>
  sends the request \<open>n + 1\<close> times, once per timeout, and then raises. The number of
  transmissions is \<^verbatim>\<open>MAX_RETRIES\<close>, the number of retries one less.
\<close>

lemma request_loop_silent:
  assumes "responses c = []" and "bus_rx c = []" and "bus_busy c = []"
  shows "request_loop (int (Suc n)) request c =
           Some (Inl (SdoCommunicationError ''No SDO response received''),
                 c\<lparr>clock := clock c + Suc n * (pause_before_send c + RESPONSE_TIMEOUT c),
                   sent := sent c @ replicate (Suc n) request\<rparr>)"
  using assms
proof (induction n arbitrary: c)
  case 0
  then show ?case
    by (subst request_loop.simps)
       (simp add: send_request_idle read_response_silent sleep_def)
next
  case (Suc n)
  let ?next = "c\<lparr>clock := clock c + (pause_before_send c + RESPONSE_TIMEOUT c),
                 sent := sent c @ [request]\<rparr>"
  have step: "request_loop (int (Suc (Suc n))) request c = request_loop (int (Suc n)) request ?next"
    using Suc.prems
    by (cases c, subst request_loop.simps)
       (simp add: send_request_idle read_response_silent sleep_def add.assoc)
  have "request_loop (int (Suc n)) request ?next =
           Some (Inl (SdoCommunicationError ''No SDO response received''),
                 ?next\<lparr>clock := clock ?next
                                  + Suc n * (pause_before_send ?next + RESPONSE_TIMEOUT ?next),
                       sent := sent ?next @ replicate (Suc n) request\<rparr>)"
    using Suc.prems by (intro Suc.IH) simp_all
  with step show ?case
    by (simp add: algebra_simps)
qed

lemma request_response_silent:
  assumes "responses c = []" and "bus_rx c = []" and "bus_busy c = []"
    and "MAX_RETRIES c = int (Suc n)"
  shows "request_response request c =
           Some (Inl (SdoCommunicationError ''No SDO response received''),
                 c\<lparr>clock := clock c + Suc n * (pause_before_send c + RESPONSE_TIMEOUT c),
                   sent := sent c @ replicate (Suc n) request\<rparr>)"
  using assms request_loop_silent [OF assms(1-3), of n request]
  by (simp add: request_response_def deliver_idle)

text \<open>
  With \<^verbatim>\<open>MAX_RETRIES\<close> of 0 or less the counter never reaches 0: on a silent bus
  \<^verbatim>\<open>request_response\<close> sends the request again and again and does not return.
\<close>

lemma request_loop_silent_forever:
  assumes "request_loop retries_left request c = Some y"
  shows "\<not> (retries_left \<le> 0 \<and> responses c = [] \<and> bus_rx c = [] \<and> bus_busy c = [])"
proof (rule request_loop.raw_induct [OF _ assms], goal_cases)
  case (1 loop retries_left request c y)
  show ?case
  proof
    assume silent: "retries_left \<le> 0 \<and> responses c = [] \<and> bus_rx c = [] \<and> bus_busy c = []"
    let ?sent = "(if pause_before_send c \<noteq> 0 then sleep (pause_before_send c) c else c)
                   \<lparr>sent := sent c @ [request]\<rparr>"
    let ?next = "sleep (RESPONSE_TIMEOUT ?sent) ?sent"
    have "loop (retries_left - 1) request ?next = Some y"
      using 1(2) silent
      by (simp add: send_request_idle read_response_silent sleep_def)
    from 1(1) [OF this] silent show False
      by (auto simp: sleep_def split: if_splits)
  qed
qed

lemma request_response_never_returns:
  assumes "MAX_RETRIES c \<le> 0" and "responses c = []" and "bus_rx c = []" and "bus_busy c = []"
  shows "request_response request c = None"
proof (cases "request_response request c")
  case (Some y)
  then have "request_loop (MAX_RETRIES c) request c = Some y"
    using assms by (simp add: request_response_def deliver_idle)
  from request_loop_silent_forever [OF this] assms show ?thesis
    by simp
qed simp

subsection \<open>The choice between expedited and segmented download\<close>

lemma unat_byte_of_nat: "unat (of_nat k :: byte) = k mod 256"
  by (simp add: unat_of_nat)

lemma le_nat_pack_L:
  assumes "n < 2 ^ 32"
  shows "le_nat (pack_L n) = n"
proof -
  define q1 where "q1 = n div 256"
  define q2 where "q2 = q1 div 256"
  define q3 where "q3 = q2 div 256"
  define m0 where "m0 = n mod 256"
  define m1 where "m1 = q1 mod 256"
  define m2 where "m2 = q2 mod 256"
  have n: "n = m0 + 256 * q1" and q1: "q1 = m1 + 256 * q2" and q2: "q2 = m2 + 256 * q3"
    by (simp_all add: q1_def q2_def q3_def m0_def m1_def m2_def)
  have d2: "n div 65536 = q2"
    using div_mult2_eq [of n 256 256] by (simp add: q1_def q2_def)
  have d3: "n div 16777216 = q3"
    using div_mult2_eq [of n 65536 256] d2 by (simp add: q3_def)
  have "q3 < 256"
    using assms d3 by (simp add: less_mult_imp_div_less)
  then have m3: "q3 mod 256 = q3"
    by simp
  have "le_nat (pack_L n) = m0 + 256 * (m1 + 256 * (m2 + 256 * q3))"
    unfolding pack_L_def le_nat.simps unat_byte_of_nat d2 d3 m3
    by (simp add: q1_def m0_def m1_def m2_def)
  also have "\<dots> = n"
    by (subst n, subst q1, subst q2) (rule refl)
  finally show ?thesis .
qed

text \<open>
  The segmented branch of \<^verbatim>\<open>WritableStream.__init__\<close> is the initiate exchange followed by
  the check of the response.
\<close>

lemma WritableStream_init_segmented:
  assumes "sz = None \<or> the sz > 4 \<or> force_segment" and "\<not> (sz \<noteq> None \<and> 2 ^ 32 \<le> the sz)"
  shows "WritableStream_init index subindex sz force_segment c =
           (case request_response
                   (SDO_STRUCT_pack
                      (if sz = None then REQUEST_DOWNLOAD else REQUEST_DOWNLOAD OR SIZE_SPECIFIED)
                      index subindex
                    @ (case sz of None \<Rightarrow> [0, 0, 0, 0] | Some n \<Rightarrow> pack_L n)) c of
              None \<Rightarrow> None
            | Some (Inl e, c1) \<Rightarrow> Some (Inl e, c1)
            | Some (Inr response, c1) \<Rightarrow>
                (case unpack_from_B response of
                   Inl e \<Rightarrow> Some (Inl e, c1)
                 | Inr res_command \<Rightarrow>
                     if res_command \<noteq> RESPONSE_DOWNLOAD
                     then Some (Inl (unexpected_response res_command), c1)
                     else Some (Inr \<lparr>ws_size = sz, ws_pos = 0, ws_toggle = 0,
                                     ws_exp_header = None, ws_done = False\<rparr>, c1)))"
  using assms by (cases sz) (auto simp: WritableStream_init_def Let_def)

lemma WritableStream_init_returns:
  assumes "0 < MAX_RETRIES c"
  shows "\<exists>r c1. WritableStream_init index subindex sz force_segment c = Some (r, c1)"
proof (cases "sz = None \<or> the sz > 4 \<or> force_segment")
  case False
  then show ?thesis
    by (auto simp: WritableStream_init_def Let_def)
next
  case True
  show ?thesis
  proof (cases "sz \<noteq> None \<and> 2 ^ 32 \<le> the sz")
    case big: True
    with True show ?thesis
      by (auto simp: WritableStream_init_def Let_def)
  next
    case fits: False
    let ?request = "SDO_STRUCT_pack
                 (if sz = None then REQUEST_DOWNLOAD else REQUEST_DOWNLOAD OR SIZE_SPECIFIED)
                 index subindex
               @ (case sz of None \<Rightarrow> [0, 0, 0, 0] | Some n \<Rightarrow> pack_L n)"
    obtain r' c' where rr: "request_response ?request c = Some (r', c')"
      using request_response_returns [OF assms] by blast
    show ?thesis
      unfolding WritableStream_init_segmented [OF True fits] rr
      by (auto split: sum.splits)
  qed
qed

lemma WritableStream_init_sent:
  assumes "sz = None \<or> the sz > 4 \<or> force_segment" and "\<not> (sz \<noteq> None \<and> 2 ^ 32 \<le> the sz)"
    and "bus_busy c = []"
    and "WritableStream_init index subindex sz force_segment c = Some (r, c1)"
  shows "(\<exists>k. sent c1 =
            sent c @ replicate (Suc k)
              (SDO_STRUCT_pack
                 (if sz = None then REQUEST_DOWNLOAD else REQUEST_DOWNLOAD OR SIZE_SPECIFIED)
                 index subindex
               @ (case sz of None \<Rightarrow> [0, 0, 0, 0] | Some n \<Rightarrow> pack_L n)))
         \<and> (\<forall>fp. r = Inr fp \<longrightarrow>
                   fp = \<lparr>ws_size = sz, ws_pos = 0, ws_toggle = 0, ws_exp_header = None,
                         ws_done = False\<rparr>)"
proof -
  let ?seg = "\<lparr>ws_size = sz, ws_pos = 0, ws_toggle = 0, ws_exp_header = None, ws_done = False\<rparr>"
  let ?request = "SDO_STRUCT_pack
               (if sz = None then REQUEST_DOWNLOAD else REQUEST_DOWNLOAD OR SIZE_SPECIFIED)
               index subindex
             @ (case sz of None \<Rightarrow> [0, 0, 0, 0] | Some n \<Rightarrow> pack_L n)"
  have "\<exists>r'. request_response ?request c = Some (r', c1) \<and> (\<forall>fp. r = Inr fp \<longrightarrow> fp = ?seg)"
    using assms(4) unfolding WritableStream_init_segmented [OF assms(1,2)]
    by (auto split: option.splits sum.splits prod.splits if_splits)
  then obtain r' where rr: "request_response ?request c = Some (r', c1)"
    and fp: "\<forall>fp. r = Inr fp \<longrightarrow> fp = ?seg"
    by blast
  from request_response_sent [OF rr assms(3)] fp show ?thesis
    by blast
qed

text \<open>
  C5. A \<^verbatim>\<open>WritableStream\<close> is opened on a bus that takes every frame. If the size is known
  and at most 4 and segmentation is not forced, the constructor returns an expedited stream:
  it holds the header \<^verbatim>\<open>REQUEST_DOWNLOAD | EXPEDITED | SIZE_SPECIFIED | (4 - size) << 2\<close> and
  nothing is sent. (A known size of \<open>2 ^ 32\<close> or more that is forced to be segmented cannot be
  packed: \<^verbatim>\<open>struct.error\<close>, nothing sent.) In every other case a segmented download is
  initiated. With \<^verbatim>\<open>MAX_RETRIES\<close> of 1 or more the constructor returns, whatever the server
  does; and whenever it returns, the request has gone out: \<^verbatim>\<open>REQUEST_DOWNLOAD\<close>, index and
  subindex, with the size bit and the little-endian size in bytes 4 to 7 when the size is
  known, and without the bit and with zeros there when it is not. A stream that results has
  no expedited header. \<^verbatim>\<open>download\<close> always knows the size, the length of the data, and
  \<^verbatim>\<open>set_data\<close> forces segmentation exactly for the data type \<^verbatim>\<open>DOMAIN\<close>.
\<close>

theorem download_mode_selection:
  assumes "bus_busy c = []"
  shows "(if sz \<noteq> None \<and> the sz \<le> 4 \<and> \<not> force_segment
          then WritableStream_init index subindex sz force_segment c =
                 Some (Inr \<lparr>ws_size = sz, ws_pos = 0, ws_toggle = 0,
                             ws_exp_header =
                               Some (SDO_STRUCT_pack
                                       (REQUEST_DOWNLOAD OR EXPEDITED OR SIZE_SPECIFIED
                                        OR push_bit 2 (of_nat (4 - the sz))) index subindex),
                             ws_done = False\<rparr>, c)
          else if sz \<noteq> None \<and> 2 ^ 32 \<le> the sz
          then WritableStream_init index subindex sz force_segment c = Some (Inl StructError, c)
          else (0 < MAX_RETRIES c \<longrightarrow>
                  (\<exists>r c1. WritableStream_init index subindex sz force_segment c = Some (r, c1)))
               \<and> (\<forall>r c1. WritableStream_init index subindex sz force_segment c = Some (r, c1) \<longrightarrow>
                     (\<exists>k. sent c1 =
                             sent c @ replicate (Suc k)
                               (SDO_STRUCT_pack
                                  (if sz = None then REQUEST_DOWNLOAD
                                   else REQUEST_DOWNLOAD OR SIZE_SPECIFIED) index subindex
                                @ (case sz of None \<Rightarrow> [0, 0, 0, 0] | Some n \<Rightarrow> pack_L n)))
                     \<and> (\<forall>fp. r = Inr fp \<longrightarrow>
                               fp = \<lparr>ws_size = sz, ws_pos = 0, ws_toggle = 0,
                                     ws_exp_header = None, ws_done = False\<rparr>)))
         \<and> (\<forall>n. sz = Some n \<and> n < 2 ^ 32 \<longrightarrow> le_nat (pack_L n) = n)
         \<and> (\<forall>DOMAIN od data.
               set_data_stream DOMAIN od data c =
                 WritableStream_init (od_index od) (od_subindex od) (Some (length data))
                   (od_data_type od = DOMAIN) c)"
proof -
  let ?init = "WritableStream_init index subindex sz force_segment c"
  let ?seg = "\<lparr>ws_size = sz, ws_pos = 0, ws_toggle = 0, ws_exp_header = None, ws_done = False\<rparr>"
  let ?request = "SDO_STRUCT_pack
               (if sz = None then REQUEST_DOWNLOAD else REQUEST_DOWNLOAD OR SIZE_SPECIFIED)
               index subindex
             @ (case sz of None \<Rightarrow> [0, 0, 0, 0] | Some n \<Rightarrow> pack_L n)"
  have expedited: "?init =
          Some (Inr (?seg\<lparr>ws_exp_header :=
                          Some (SDO_STRUCT_pack
                                  (REQUEST_DOWNLOAD OR EXPEDITED OR SIZE_SPECIFIED
                                   OR push_bit 2 (of_nat (4 - the sz))) index subindex)\<rparr>), c)"
    if "sz \<noteq> None \<and> the sz \<le> 4 \<and> \<not> force_segment"
    using that by (auto simp: WritableStream_init_def Let_def)
  have too_big: "?init = Some (Inl StructError, c)"
    if "\<not> (sz \<noteq> None \<and> the sz \<le> 4 \<and> \<not> force_segment)" and "sz \<noteq> None \<and> 2 ^ 32 \<le> the sz"
    using that by (auto simp: WritableStream_init_def Let_def)
  have returns: "0 < MAX_RETRIES c \<longrightarrow> (\<exists>r c1. ?init = Some (r, c1))"
    using WritableStream_init_returns by blast
  have segmented:
    "\<forall>r c1. ?init = Some (r, c1) \<longrightarrow>
       (\<exists>k. sent c1 = sent c @ replicate (Suc k) ?request) \<and> (\<forall>fp. r = Inr fp \<longrightarrow> fp = ?seg)"
    if no: "\<not> (sz \<noteq> None \<and> the sz \<le> 4 \<and> \<not> force_segment)"
      and fits: "\<not> (sz \<noteq> None \<and> 2 ^ 32 \<le> the sz)"
  proof (intro allI impI)
    fix r c1
    assume i: "?init = Some (r, c1)"
    from no have seg: "sz = None \<or> the sz > 4 \<or> force_segment"
      by auto
    from WritableStream_init_sent [OF seg fits assms i]
    show "(\<exists>k. sent c1 = sent c @ replicate (Suc k) ?request) \<and> (\<forall>fp. r = Inr fp \<longrightarrow> fp = ?seg)" .
  qed
  have codec: "\<forall>n. sz = Some n \<and> n < 2 ^ 32 \<longrightarrow> le_nat (pack_L n) = n"
    by (simp add: le_nat_pack_L)
  have set_data: "\<forall>DOMAIN od data.
               set_data_stream DOMAIN od data c =
                 WritableStream_init (od_index od) (od_subindex od) (Some (length data))
                   (od_data_type od = DOMAIN) c"
    by (simp add: set_data_stream_def download_stream_def)
  show ?thesis
    using expedited too_big returns segmented codec set_data by simp
qed

text \<open>
  Scenario 2 (four bytes to \<^verbatim>\<open>0x1400:2\<close>, header \<^verbatim>\<open>23 00 14 02\<close>), and a download of ten
  bytes to \<^verbatim>\<open>0x1008:0\<close>, initiated by \<^verbatim>\<open>21 08 10 00 0A 00 00 00\<close>: with the defaults the
  constructor returns when the server answers \<^verbatim>\<open>60 08 10 00 ..\<close>, and also when it stays
  silent, then with an error after one transmission.
\<close>

theorem download_mode_selection_witness:
  "bus_busy default_client = []
   \<and> WritableStream_init 0x1400 2 (Some 4) False default_client
       = Some (Inr \<lparr>ws_size = Some 4, ws_pos = 0, ws_toggle = 0,
                    ws_exp_header = Some [0x23, 0x00, 0x14, 0x02], ws_done = False\<rparr>,
               default_client)
   \<and> bus_busy (client_with_server [[0x60, 0x08, 0x10, 0x00, 0x00, 0x00, 0x00, 0x00]]) = []
   \<and> 0 < MAX_RETRIES (client_with_server [[0x60, 0x08, 0x10, 0x00, 0x00, 0x00, 0x00, 0x00]])
   \<and> WritableStream_init 0x1008 0 (Some 10) False
         (client_with_server [[0x60, 0x08, 0x10, 0x00, 0x00, 0x00, 0x00, 0x00]])
       = Some (Inr \<lparr>ws_size = Some 10, ws_pos = 0, ws_toggle = 0, ws_exp_header = None,
                    ws_done = False\<rparr>,
               default_client\<lparr>clock := 1, sent := [[0x21, 0x08, 0x10, 0x00, 0x0A, 0, 0, 0]]\<rparr>)
   \<and> 0 < MAX_RETRIES default_client
   \<and> (\<exists>r c1. WritableStream_init 0x1008 0 (Some 10) False default_client = Some (r, c1)
              \<and> (\<exists>k. sent c1 = replicate (Suc k) [0x21, 0x08, 0x10, 0x00, 0x0A, 0, 0, 0]))
   \<and> le_nat (pack_L 10) = 10"
proof -
  let ?srv = "client_with_server [[0x60, 0x08, 0x10, 0x00, 0x00, 0x00, 0x00, 0x00]]"
  have i1: "bus_busy default_client = []" and i2: "bus_busy ?srv = []"
    and m1: "0 < MAX_RETRIES default_client" and m2: "0 < MAX_RETRIES ?srv"
    and s0: "sent default_client = []"
    by (simp_all add: client_defs)
  have req: "SDO_STRUCT_pack 0x21 0x1008 0 @ pack_L 10 = [0x21, 0x08, 0x10, 0x00, 0x0A, 0, 0, 0]"
    by (simp add: codec_defs)
  from download_mode_selection [OF i1, where sz = "Some 4" and force_segment = False
      and index = "0x1400" and subindex = 2]
  have e: "WritableStream_init 0x1400 2 (Some 4) False default_client
     = Some (Inr \<lparr>ws_size = Some 4, ws_pos = 0, ws_toggle = 0,
                  ws_exp_header = Some [0x23, 0x00, 0x14, 0x02], ws_done = False\<rparr>,
             default_client)"
    by (simp add: codec_defs)
  have s: "WritableStream_init 0x1008 0 (Some 10) False ?srv
       = Some (Inr \<lparr>ws_size = Some 10, ws_pos = 0, ws_toggle = 0, ws_exp_header = None,
                    ws_done = False\<rparr>,
               default_client\<lparr>clock := 1, sent := [[0x21, 0x08, 0x10, 0x00, 0x0A, 0, 0, 0]]\<rparr>)"
    by (simp add: WritableStream_init_def client_defs driver_defs codec_defs)
  note silent = download_mode_selection [OF i1, where sz = "Some 10" and force_segment = False
      and index = "0x1008" and subindex = 0]
  from silent m1 obtain r c1
    where ret: "WritableStream_init 0x1008 0 (Some 10) False default_client = Some (r, c1)"
    by auto
  with silent s0 req have "\<exists>k. sent c1 = replicate (Suc k) [0x21, 0x08, 0x10, 0x00, 0x0A, 0, 0, 0]"
    by simp
  with ret have t: "\<exists>r c1. WritableStream_init 0x1008 0 (Some 10) False default_client = Some (r, c1)
              \<and> (\<exists>k. sent c1 = replicate (Suc k) [0x21, 0x08, 0x10, 0x00, 0x0A, 0, 0, 0])"
    by blast
  from silent have "le_nat (pack_L 10) = 10"
    by simp
  with e s i1 i2 m1 m2 t show ?thesis
    by simp
qed

subsection \<open>Block upload: the checksum\<close>

text \<open>The check value of the CRC-16 with polynomial \<^verbatim>\<open>0x1021\<close> and start value 0.\<close>

lemma crc_hqx_check_value:
  "crc_hqx [0x31, 0x32, 0x33, 0x34, 0x35, 0x36, 0x37, 0x38, 0x39] 0 = 0x31C3"
  by (simp add: crc_eval)


















subsection \<open>Block download: the acknowledgment of a block\<close>

text \<open>
  C7. Let the block acknowledgment be a response of class \<^verbatim>\<open>RESPONSE_BLOCK_DOWNLOAD\<close> with
  sub-command \<^verbatim>\<open>BLOCK_TRANSFER_RESPONSE\<close> whose sequence number differs from \<^verbatim>\<open>_blksize\<close>,
  the number of frames the client expects to be acknowledged. On a bus that takes the frame,
  \<^verbatim>\<open>_block_ack\<close> sends the abort \<^verbatim>\<open>80 00 00 00 03 00 04 05\<close> (code \<^verbatim>\<open>0x05040003\<close>) and nothing
  else, raises \<^verbatim>\<open>SdoCommunicationError\<close> and leaves the stream as it was: no frame of the
  block is sent again.
\<close>

theorem block_ack_mismatch_aborts:
  assumes "read_response c = (Inr response, c1)"
    and "response = cmd # ackseq # blksize # rest"
    and "cmd AND 0xE0 = RESPONSE_BLOCK_DOWNLOAD"
    and "cmd AND 0x3 = BLOCK_TRANSFER_RESPONSE"
    and "unat ackseq \<noteq> bd_blksize fp"
    and "bus_busy c = []"
  shows "\<exists>c2. block_ack fp c =
           ((Inl (SdoCommunicationError
                    (fmt_d (unat ackseq) @ '' of '' @ fmt_d (bd_blksize fp)
                     @ '' sequences were received. Retransmission is not supported yet.'')),
             fp), c2)
         \<and> sent c2 = sent c @ [[0x80, 0x00, 0x00, 0x00, 0x03, 0x00, 0x04, 0x05]]"
proof -
  from read_response_bus [OF assms(1)] assms(6)
  have idle: "bus_busy c1 = []" and same: "sent c1 = sent c"
    by simp_all
  have abort: "abort 0x05040003 c1 =
      (Inr (), (if pause_before_send c1 \<noteq> 0 then sleep (pause_before_send c1) c1 else c1)
               \<lparr>sent := sent c1 @ [[0x80, 0x00, 0x00, 0x00, 0x03, 0x00, 0x04, 0x05]]\<rparr>)"
    using idle by (simp add: abort_def pack_L_def send_request_idle)
  show ?thesis
    using assms(1-5) same
    by (simp add: block_ack_def abort_and_raise_def abort sleep_def)
qed

text \<open>
  The last chunk of a ten-byte block download went out as frame 2, and the server
  acknowledges frame 1 only.
\<close>

theorem block_ack_mismatch_witness:
  "read_response
     (default_client
        \<lparr>clock := 1, bus_rx := [(2, [0xA2, 0x01, 0x7F])],
         sent := [[0xC6, 0x08, 0x10, 0x00, 0x0A, 0, 0, 0], [0x01, 1, 2, 3, 4, 5, 6, 7],
                  [0x82, 8, 9, 10, 0, 0, 0, 0]]\<rparr>)
     = (Inr [0xA2, 0x01, 0x7F],
        default_client
          \<lparr>clock := 2,
           sent := [[0xC6, 0x08, 0x10, 0x00, 0x0A, 0, 0, 0], [0x01, 1, 2, 3, 4, 5, 6, 7],
                    [0x82, 8, 9, 10, 0, 0, 0, 0]]\<rparr>)
   \<and> (0xA2 :: byte) AND 0xE0 = RESPONSE_BLOCK_DOWNLOAD
   \<and> (0xA2 :: byte) AND 0x3 = BLOCK_TRANSFER_RESPONSE
   \<and> unat (0x01 :: byte) \<noteq> 2
   \<and> block_ack
         \<lparr>bd_size = Some 10, bd_pos = 10, bd_done = True, bd_seqno = 2, bd_crc = 0xCD4B,
          bd_last_bytes_sent = 3, bd_blksize = 2, bd_crc_supported = True, bd_closed = False\<rparr>
         (default_client
            \<lparr>clock := 1, bus_rx := [(2, [0xA2, 0x01, 0x7F])],
             sent := [[0xC6, 0x08, 0x10, 0x00, 0x0A, 0, 0, 0], [0x01, 1, 2, 3, 4, 5, 6, 7],
                      [0x82, 8, 9, 10, 0, 0, 0, 0]]\<rparr>)
       = ((Inl (SdoCommunicationError
                  ''1 of 2 sequences were received. Retransmission is not supported yet.''),
           \<lparr>bd_size = Some 10, bd_pos = 10, bd_done = True, bd_seqno = 2, bd_crc = 0xCD4B,
            bd_last_bytes_sent = 3, bd_blksize = 2, bd_crc_supported = True,
            bd_closed = False\<rparr>),
          default_client
            \<lparr>clock := 2,
             sent := [[0xC6, 0x08, 0x10, 0x00, 0x0A, 0, 0, 0], [0x01, 1, 2, 3, 4, 5, 6, 7],
                      [0x82, 8, 9, 10, 0, 0, 0, 0], [0x80, 0, 0, 0, 0x03, 0x00, 0x04, 0x05]]\<rparr>)"
proof -
  let ?log = "[[0xC6, 0x08, 0x10, 0x00, 0x0A, 0, 0, 0], [0x01, 1, 2, 3, 4, 5, 6, 7],
              [0x82, 8, 9, 10, 0, 0, 0, 0]] :: frame list"
  let ?before = "default_client\<lparr>clock := 1, bus_rx := [(2, [0xA2, 0x01, 0x7F])], sent := ?log\<rparr>"
  let ?fp = "\<lparr>bd_size = Some 10, bd_pos = 10, bd_done = True, bd_seqno = 2, bd_crc = 0xCD4B,
              bd_last_bytes_sent = 3, bd_blksize = 2, bd_crc_supported = True,
              bd_closed = False\<rparr>"
  have rd: "read_response ?before = (Inr [0xA2, 0x01, 0x7F], default_client\<lparr>clock := 2, sent := ?log\<rparr>)"
    by (simp add: client_defs driver_defs codec_defs)
  have cl: "(0xA2 :: byte) AND 0xE0 = RESPONSE_BLOCK_DOWNLOAD"
    and sub: "(0xA2 :: byte) AND 0x3 = BLOCK_TRANSFER_RESPONSE"
    by simp_all
  have ne: "unat (0x01 :: byte) \<noteq> bd_blksize ?fp"
    by simp
  have idle: "bus_busy ?before = []"
    by (simp add: client_defs)
  from block_ack_mismatch_aborts [OF rd refl cl sub ne idle]
  obtain c2 where
    "block_ack ?fp ?before =
       ((Inl (SdoCommunicationError
                (fmt_d (unat (0x01 :: byte)) @ '' of '' @ fmt_d (bd_blksize ?fp)
                 @ '' sequences were received. Retransmission is not supported yet.'')), ?fp), c2)"
    by blast
  moreover have "block_ack ?fp ?before =
       ((Inl (SdoCommunicationError
                ''1 of 2 sequences were received. Retransmission is not supported yet.''), ?fp),
        default_client\<lparr>clock := 2, sent := ?log @ [[0x80, 0, 0, 0, 0x03, 0x00, 0x04, 0x05]]\<rparr>)"
    by (simp add: block_ack_def abort_and_raise_def client_defs driver_defs codec_defs
        fmt_d_def fmt_base.simps hex_digit_def)
  ultimately show ?thesis
    using rd cl sub by simp
qed

text \<open>
  The whole of the last \<^verbatim>\<open>write\<close> of that download: the frame \<^verbatim>\<open>82 08 09 0A ..\<close> goes
  out, the acknowledgment names frame 1, and the abort follows.
\<close>

lemma block_download_last_write_aborted:
  "BlockDownloadStream_write [8, 9, 10]
     \<lparr>bd_size = Some 10, bd_pos = 7, bd_done = False, bd_seqno = 1, bd_crc = 0x26B3,
      bd_last_bytes_sent = 0, bd_blksize = 127, bd_crc_supported = True, bd_closed = False\<rparr>
     (default_client
        \<lparr>clock := 1, bus_rx := [(2, [0xA2, 0x01, 0x7F])],
         sent := [[0xC6, 0x08, 0x10, 0x00, 0x0A, 0, 0, 0], [0x01, 1, 2, 3, 4, 5, 6, 7]]\<rparr>)
   = ((Inl (SdoCommunicationError
              ''1 of 2 sequences were received. Retransmission is not supported yet.''),
       \<lparr>bd_size = Some 10, bd_pos = 10, bd_done = True, bd_seqno = 2, bd_crc = 0xCD4B,
        bd_last_bytes_sent = 3, bd_blksize = 2, bd_crc_supported = True, bd_closed = False\<rparr>),
      default_client
        \<lparr>clock := 2,
         sent := [[0xC6, 0x08, 0x10, 0x00, 0x0A, 0, 0, 0], [0x01, 1, 2, 3, 4, 5, 6, 7],
                  [0x82, 8, 9, 10, 0, 0, 0, 0], [0x80, 0, 0, 0, 0x03, 0x00, 0x04, 0x05]]\<rparr>)"
proof -
  have crc3: "crc_hqx [8, 9, 10] 0x26B3 = 0xCD4B"
    by (simp add: crc_eval)
  show ?thesis
    by (simp add: BlockDownloadStream_write_def send_def block_ack_def and_then_def
        abort_and_raise_def client_defs driver_defs codec_defs crc3
        fmt_d_def fmt_base.simps hex_digit_def)
qed

subsection \<open>Abort frames\<close>










text \<open>An abort frame shorter than eight bytes is a \<^verbatim>\<open>struct.error\<close>, not an \<^verbatim>\<open>SdoAbortedError\<close>.\<close>

lemma short_abort_frame:
  "read_response (default_client\<lparr>responses := [[0x80, 0x00, 0x10, 0x00]]\<rparr>)
     = (Inl StructError, default_client)"
  by (simp add: client_defs driver_defs codec_defs)

subsection \<open>A short write on an expedited download\<close>

text \<open>
  C9. A stream opened with a known size of at most 4 and without forced segmentation is
  expedited. A \<^verbatim>\<open>write\<close> of fewer bytes than that size returns 0 and leaves the stream and
  the client exactly as they were, in whatever state the client is: nothing is sent,
  \<^verbatim>\<open>pos\<close> and \<^verbatim>\<open>_done\<close> keep their values, and a later \<^verbatim>\<open>write\<close> finds the stream as
  the first one did.
\<close>

theorem expedited_short_write_changes_nothing:
  assumes "WritableStream_init index subindex (Some n) force_segment c0 = Some (Inr fp, c1)"
    and "n \<le> 4" and "\<not> force_segment" and "length b < n"
  shows "WritableStream_write fp b c = Some ((Inr 0, fp), c)"
  using assms by (auto simp: WritableStream_init_def WritableStream_write_def Let_def)

theorem expedited_short_write_witness:
  "WritableStream_init 0x1400 2 (Some 4) False default_client =
     Some (Inr \<lparr>ws_size = Some 4, ws_pos = 0, ws_toggle = 0,
                ws_exp_header = Some [0x23, 0x00, 0x14, 0x02], ws_done = False\<rparr>, default_client)
   \<and> (4::nat) \<le> 4 \<and> \<not> False \<and> length [0x01, 0x00 :: byte] < 4
   \<and> WritableStream_write
        \<lparr>ws_size = Some 4, ws_pos = 0, ws_toggle = 0,
         ws_exp_header = Some [0x23, 0x00, 0x14, 0x02], ws_done = False\<rparr> [0x01, 0x00]
        default_client =
       Some ((Inr 0, \<lparr>ws_size = Some 4, ws_pos = 0, ws_toggle = 0,
                      ws_exp_header = Some [0x23, 0x00, 0x14, 0x02], ws_done = False\<rparr>),
             default_client)"
proof -
  have init: "WritableStream_init 0x1400 2 (Some 4) False default_client =
     Some (Inr \<lparr>ws_size = Some 4, ws_pos = 0, ws_toggle = 0,
                ws_exp_header = Some [0x23, 0x00, 0x14, 0x02], ws_done = False\<rparr>, default_client)"
    by (simp add: WritableStream_init_def codec_defs)
  have len: "length [0x01, 0x00 :: byte] < 4"
    by simp
  show ?thesis
    using init len
      expedited_short_write_changes_nothing [OF init _ _ len, of default_client]
    by simp
qed

subsection \<open>Closing a block upload\<close>

text \<open>
  C10. The first \<^verbatim>\<open>close\<close> of a block upload, on a bus that takes the frame, marks the
  stream closed and sends the END acknowledgment \<^verbatim>\<open>A1 00 00 00 00 00 00 00\<close> exactly when
  the transfer is done; on an unfinished transfer it leaves the client as it was, so no
  frame of any kind is sent. Closing the closed stream again changes nothing, whatever the
  state of the client.
\<close>

theorem block_upload_close_sends_end_iff_done:
  assumes "\<not> bu_closed fp" and "bus_busy c = []"
  shows "BlockUploadStream_close fp c =
           ((Inr (), fp\<lparr>bu_closed := True\<rparr>),
            (if bu_done fp
             then (if pause_before_send c \<noteq> 0 then sleep (pause_before_send c) c else c)
                    \<lparr>sent := sent c @ [[0xA1, 0, 0, 0, 0, 0, 0, 0]]\<rparr>
             else c))
         \<and> BlockUploadStream_close (fp\<lparr>bu_closed := True\<rparr>) c' =
             ((Inr (), fp\<lparr>bu_closed := True\<rparr>), c')"
  using assms by (simp add: BlockUploadStream_close_def send_request_idle)

theorem block_upload_close_witness:
  "\<not> bu_closed \<lparr>bu_size = Some 14, bu_blksize = 127, bu_crc_supported = True, bu_done = True,
       bu_pos = 14, bu_crc = 0x9B92, bu_server_crc = Some 0x9B92, bu_ackseq = 2,
       bu_closed = False\<rparr>
   \<and> bus_busy default_client = []
   \<and> BlockUploadStream_close
        \<lparr>bu_size = Some 14, bu_blksize = 127, bu_crc_supported = True, bu_done = True,
         bu_pos = 14, bu_crc = 0x9B92, bu_server_crc = Some 0x9B92, bu_ackseq = 2,
         bu_closed = False\<rparr> default_client =
       ((Inr (), \<lparr>bu_size = Some 14, bu_blksize = 127, bu_crc_supported = True, bu_done = True,
          bu_pos = 14, bu_crc = 0x9B92, bu_server_crc = Some 0x9B92, bu_ackseq = 2,
          bu_closed = True\<rparr>),
        default_client\<lparr>sent := [[0xA1, 0, 0, 0, 0, 0, 0, 0]]\<rparr>)"
  using block_upload_close_sends_end_iff_done
          [of "\<lparr>bu_size = Some 14, bu_blksize = 127, bu_crc_supported = True, bu_done = True,
                bu_pos = 14, bu_crc = 0x9B92, bu_server_crc = Some 0x9B92, bu_ackseq = 2,
                bu_closed = False\<rparr>" default_client]
  by (simp add: default_client_def)

end
